theory Spec2Isabelle
  imports Main "HOL-Library.Word"
begin

section \<open>Data model\<close>

text \<open>
  Go's \<^verbatim>\<open>error\<close> interface, by the origin of the value: an error built in this package
  with \<^verbatim>\<open>fmt.Errorf\<close> (its message), or an error handed through unchanged from a
  dependency (the Docker client, the AWS SDK).
\<close>

datatype error = Errorf string | External string

text \<open>\<^verbatim>\<open>type Task struct { Name, Image string; Args []string; Env map[string]string }\<close>\<close>

record Task =
  Task_Name :: string
  Task_Image :: string
  Task_Args :: "string list"
  Task_Env :: "string \<rightharpoonup> string"

text \<open>\<^verbatim>\<open>type taskHandle struct { Name string; Id string }\<close>\<close>

record taskHandle =
  Handle_Name :: string
  Handle_Id :: string

text \<open>
  The parts of \<^verbatim>\<open>v1.Pod\<close> (k8s.io/api/core/v1) that the shim reads or writes, and a few
  it only carries (namespace, labels, container name), nested as in the library type.
\<close>

record EnvVar =
  EnvVar_Name :: string
  EnvVar_Value :: string

record Container =
  Container_Name :: string
  Container_Image :: string
  Container_Args :: "string list"
  Container_Env :: "EnvVar list"

record ObjectMeta =
  Meta_Name :: string
  Meta_Namespace :: string
  Meta_Labels :: "(string \<times> string) list"
  ResourceVersion :: string

record PodSpec =
  Containers :: "Container list"

record PodStatus =
  Phase :: string

record Pod =
  Pod_ObjectMeta :: ObjectMeta
  Pod_Spec :: PodSpec
  Pod_Status :: PodStatus

definition PodRunning :: string where
  "PodRunning = ''Running''"

text \<open>\<^verbatim>\<open>type Event struct { Type string; Object interface{} }\<close>; the object is always a pod.\<close>

record Event =
  Event_Type :: string
  Event_Object :: Pod

text \<open>
  A buffered channel \<^verbatim>\<open>chan Event\<close>: its capacity, fixed by \<^verbatim>\<open>make\<close>, and the events
  pending in its buffer, oldest first.
\<close>

record Chan =
  cap :: nat
  buf :: "Event list"

text \<open>\<^verbatim>\<open>type ECSConfig struct\<close> and \<^verbatim>\<open>type Config struct\<close>.\<close>

record ECSConfig =
  ClusterName :: string
  SubnetId :: string
  SecurityGroup :: string

record Config =
  ControlPlaneAddr :: string
  EcsEnabled :: bool
  DockerEnabled :: bool
  EcsConfig :: ECSConfig
  Instances :: "64 word"

text \<open>
  The \<^verbatim>\<open>provider\<close> interface over a backend of state \<open>'w\<close>. A method takes the backend's
  state and gives its result with the new state; \<open>None\<close> is a call that never returns
  (the managed-service provider polls without bound).
\<close>

record 'w provider =
  CreateTask :: "Task \<Rightarrow> 'w \<Rightarrow> ((error + taskHandle) \<times> 'w) option"
  WaitForTask :: "taskHandle \<Rightarrow> 'w \<Rightarrow> (error option \<times> 'w) option"
  GetLogs :: "taskHandle \<Rightarrow> 'w \<Rightarrow> ((error + string) \<times> 'w) option"

text \<open>
  \<^verbatim>\<open>type K8S struct\<close>. The mutex \<^verbatim>\<open>createLock\<close> has no field here: \<^verbatim>\<open>createPod\<close> holds it
  from its first statement to its return, and the registration of a watcher holds it
  around its append, so each is one atomic step of the model.
\<close>

record 'w K8S =
  config :: Config
  pods :: "Pod list"
  handles :: "taskHandle list"
  updateCh :: "Chan list"
  provider :: "'w provider"
  resourceVersion :: "64 word"

text \<open>What the process does outside the \<^verbatim>\<open>K8S\<close> struct: the backend behind the provider
  (and, for \<^verbatim>\<open>GatherLogs\<close>, the file system and the clock), the tasks handed to
  \<^verbatim>\<open>provider.CreateTask\<close> so far (a history of the calls), the records written with
  \<^verbatim>\<open>slog\<close>, the server goroutines that were started with \<^verbatim>\<open>go\<close> and have not run yet
  (by the address each is to listen on), the addresses on which the HTTP server is
  listening, and the lines printed to standard output.\<close>

datatype LogEntry =
  Info string "(string \<times> string) list"
| Error string error

record 'w world =
  backend :: 'w
  submitted :: "Task list"
  slog :: "LogEntry list"
  pending :: "string list"
  listening :: "string list"
  stdout :: "string list"

text \<open>How a call of a function that returns \<^verbatim>\<open>error\<close> ends: it returns (nil is \<open>None\<close>),
  it panics, it is suspended on a send to a full channel, or the provider call inside it
  never returns.\<close>

datatype outcome =
  Returned "error option"
| Panicked string
| BlockedOnSend
| NoReturn

text \<open>How the process ends: it exits with a status, it dies of a panic that nothing
  recovers (the Go runtime then exits with status 2), or it stays (it waits for a call
  that does not return).\<close>

datatype exit = Exit nat | Crash string | Stays

fun exit_status :: "exit \<Rightarrow> nat option" where
  "exit_status (Exit n) = Some n"
| "exit_status (Crash m) = Some 2"
| "exit_status Stays = None"

text \<open>The process after a request: it goes on serving from a state, or it has ended.\<close>

datatype 'w process =
  Serving "'w K8S" "'w world"
| Terminated exit "'w world"

section \<open>Formatting integers\<close>

definition digit :: "nat \<Rightarrow> char" where
  "digit d = ''0123456789'' ! d"

text \<open>\<^verbatim>\<open>fmt.Sprintf("%d", n)\<close> for an unsigned value: the decimal digits, no leading zero.\<close>

fun FormatUint :: "nat \<Rightarrow> string" where
  "FormatUint n = (if n < 10 then [digit n] else FormatUint (n div 10) @ [digit (n mod 10)])"

declare FormatUint.simps [simp del]

definition Sprintf_d :: "64 word \<Rightarrow> string" where
  "Sprintf_d v = FormatUint (unat v)"

text \<open>\<^verbatim>\<open>strconv.Itoa\<close>: a minus sign for a negative value.\<close>

definition Itoa :: "int \<Rightarrow> string" where
  "Itoa i = (if i < 0 then CHR ''-'' # FormatUint (nat (- i)) else FormatUint (nat i))"

section \<open>Creating a pod\<close>

text \<open>\<^verbatim>\<open>func (k *K8S) addHandle(handle *taskHandle)\<close>\<close>

definition addHandle :: "taskHandle \<Rightarrow> 'w K8S \<Rightarrow> 'w K8S" where
  "addHandle handle k = k\<lparr>handles := handles k @ [handle]\<rparr>"

text \<open>
  The loop of \<^verbatim>\<open>createPod\<close> over \<^verbatim>\<open>cc.Env\<close>, filling \<^verbatim>\<open>task.Env\<close>:
  \<^verbatim>\<open>
  for _, kv := range cc.Env {
      if kv.Name == "SPARK_LOCAL_DIRS" { task.Env[kv.Name] = "/tmp"; continue }
      task.Env[kv.Name] = kv.Value
  }
  \<close>
\<close>

fun fillEnv :: "EnvVar list \<Rightarrow> (string \<rightharpoonup> string) \<Rightarrow> (string \<rightharpoonup> string)" where
  "fillEnv [] env = env"
| "fillEnv (kv # kvs) env =
     (if EnvVar_Name kv = ''SPARK_LOCAL_DIRS''
      then fillEnv kvs (env(EnvVar_Name kv \<mapsto> ''/tmp''))
      else fillEnv kvs (env(EnvVar_Name kv \<mapsto> EnvVar_Value kv)))"

text \<open>The task that \<^verbatim>\<open>createPod\<close> builds from the pod and its only container
  (\<^verbatim>\<open>// convert pod to task\<close>).\<close>

definition podTask :: "Pod \<Rightarrow> Container \<Rightarrow> Task" where
  "podTask pod cc =
     \<lparr>Task_Name = Meta_Name (Pod_ObjectMeta pod),
      Task_Image = Container_Image cc,
      Task_Args = Container_Args cc,
      Task_Env = fillEnv (Container_Env cc) Map.empty\<rparr>"

text \<open>\<^verbatim>\<open>ch <- event\<close> on a buffered channel: the event joins the buffer when there is room;
  with a full buffer the sender is suspended (\<open>None\<close>).\<close>

definition chan_send :: "Event \<Rightarrow> Chan \<Rightarrow> Chan option" where
  "chan_send e c = (if length (buf c) < cap c then Some (c\<lparr>buf := buf c @ [e]\<rparr>) else None)"

text \<open>\<^verbatim>\<open>for _, ch := range k.updateCh { ch <- event }\<close>: the channels after the loop and
  whether it ran to its end; it stops at the first send that cannot proceed.\<close>

fun broadcast :: "Event \<Rightarrow> Chan list \<Rightarrow> Chan list \<times> bool" where
  "broadcast e [] = ([], True)"
| "broadcast e (c # cs) =
     (case chan_send e c of
        None \<Rightarrow> (c # cs, False)
      | Some c' \<Rightarrow> (case broadcast e cs of (cs', done) \<Rightarrow> (c' # cs', done)))"

text \<open>\<^verbatim>\<open>func (k *K8S) createPod(pod v1.Pod) error\<close>\<close>

definition createPod :: "Pod \<Rightarrow> 'w K8S \<Rightarrow> 'w world \<Rightarrow> outcome \<times> 'w K8S \<times> 'w world" where
  "createPod pod k w =
     (let k1 = k\<lparr>resourceVersion := resourceVersion k + 1\<rparr> in
      if length (Containers (Pod_Spec pod)) \<noteq> 1
      then (Panicked ''only one container per pod is supported'', k1, w)
      else
        let cc = Containers (Pod_Spec pod) ! 0;
            task = podTask pod cc;
            w0 = w\<lparr>submitted := submitted w @ [task]\<rparr>
        in case CreateTask (provider k1) task (backend w0) of
             None \<Rightarrow> (NoReturn, k1, w0)
           | Some (Inl err, b) \<Rightarrow> (Returned (Some err), k1, w0\<lparr>backend := b\<rparr>)
           | Some (Inr handle, b) \<Rightarrow>
              (let w1 = w0\<lparr>backend := b,
                          slog := slog w0 @ [Info ''task created''
                            [(''name'', Handle_Name handle), (''id'', Handle_Id handle)]]\<rparr>;
                   handle1 = handle\<lparr>Handle_Name := Meta_Name (Pod_ObjectMeta pod)\<rparr>;
                   k2 = addHandle handle1 k1;
                   pod1 = pod\<lparr>Pod_Status := (Pod_Status pod)\<lparr>Phase := PodRunning\<rparr>\<rparr>;
                   k3 = k2\<lparr>pods := pods k2 @ [pod1]\<rparr>;
                   pod2 = pod1\<lparr>Pod_ObjectMeta :=
                            (Pod_ObjectMeta pod1)\<lparr>ResourceVersion := Sprintf_d (resourceVersion k3)\<rparr>\<rparr>;
                   event = \<lparr>Event_Type = ''ADDED'', Event_Object = pod2\<rparr>
               in case broadcast event (updateCh k3) of
                    (chs, True) \<Rightarrow> (Returned None, k3\<lparr>updateCh := chs\<rparr>, w1)
                  | (chs, False) \<Rightarrow> (BlockedOnSend, k3\<lparr>updateCh := chs\<rparr>, w1)))"

section \<open>The pod endpoints\<close>

text \<open>
  The goroutine that \<^verbatim>\<open>postPods\<close> starts:
  \<^verbatim>\<open>go func() { if err := k.createPod(pod); err != nil { slog.Error("error creating pod", "err", err) } }()\<close>
\<close>

definition postPods_go :: "Pod \<Rightarrow> 'w K8S \<Rightarrow> 'w world \<Rightarrow> outcome \<times> 'w K8S \<times> 'w world" where
  "postPods_go pod k w =
     (case createPod pod k w of
        (Returned (Some err), k', w') \<Rightarrow>
          (Returned (Some err), k', w'\<lparr>slog := slog w' @ [Error ''error creating pod'' err]\<rparr>)
      | r \<Rightarrow> r)"

text \<open>
  \<^verbatim>\<open>func (k *K8S) postPods(c echo.Context) error\<close>, with the goroutine it starts. The
  argument \<open>body\<close> is what \<^verbatim>\<open>c.Bind(&pod)\<close> gives for the request body. The goroutine has no
  \<^verbatim>\<open>recover\<close>: when \<^verbatim>\<open>createPod\<close> panics in it, the process ends, and it does so while the
  handler is writing its answer with \<^verbatim>\<open>c.JSON\<close>. The argument \<open>answered\<close> settles that
  race: whether the answer has reached the client before the process ends.

  The result is what the client receives (the bind error, status 200 with the pod
  echoed, or nothing: the connection is closed on it), how the goroutine ended, and
  the process after the request.
\<close>

definition postPods ::
  "bool \<Rightarrow> error + Pod \<Rightarrow> 'w K8S \<Rightarrow> 'w world \<Rightarrow>
     (error + nat \<times> Pod) option \<times> outcome option \<times> 'w process" where
  "postPods answered body k w =
     (case body of
        Inl err \<Rightarrow> (Some (Inl err), None, Serving k w)
      | Inr pod \<Rightarrow>
          (case postPods_go pod k w of
             (Panicked m, k', w') \<Rightarrow>
               (if answered then Some (Inr (200, pod)) else None, Some (Panicked m),
                Terminated (Crash m) w')
           | (out, k', w') \<Rightarrow> (Some (Inr (200, pod)), Some out, Serving k' w')))"

text \<open>
  \<^verbatim>\<open>func (k *K8S) getPods(c echo.Context) error\<close>, up to the point where it starts to serve:
  with \<^verbatim>\<open>watch=true\<close> it makes a channel of capacity 1000 and appends it to
  \<^verbatim>\<open>k.updateCh\<close> (the answer names its position there); otherwise it answers with the
  pod list.
\<close>

datatype getPods_answer = PodList "Pod list" | Watch nat

definition getPods :: "string \<Rightarrow> 'w K8S \<Rightarrow> getPods_answer \<times> 'w K8S" where
  "getPods watch k =
     (if watch = ''true''
      then (Watch (length (updateCh k)), k\<lparr>updateCh := updateCh k @ [\<lparr>cap = 1000, buf = []\<rparr>]\<rparr>)
      else (PodList (pods k), k))"

text \<open>One round of \<^verbatim>\<open>for event := range updateCh\<close> in the watcher at position \<open>i\<close>: it takes
  the oldest pending event to write it to its connection; \<open>None\<close> when nothing is pending.\<close>

definition watch_recv :: "nat \<Rightarrow> 'w K8S \<Rightarrow> (Event \<times> 'w K8S) option" where
  "watch_recv i k =
     (if i < length (updateCh k) then
        (case buf (updateCh k ! i) of
           [] \<Rightarrow> None
         | e # es \<Rightarrow> Some (e, k\<lparr>updateCh := (updateCh k)[i := (updateCh k ! i)\<lparr>buf := es\<rparr>]\<rparr>))
      else None)"

section \<open>Construction and the run\<close>

text \<open>
  The two provider constructors, \<^verbatim>\<open>newEcsProvider\<close> and \<^verbatim>\<open>newDockerProvider\<close>, are sequences
  of calls to the AWS SDK and to the Docker client, each of whose failures is returned.
  \<^verbatim>\<open>New\<close> depends on what they return only, so it takes them as steps of the backend that
  give a provider or an error.
\<close>

record 'w constructors =
  newEcsProvider :: "ECSConfig \<Rightarrow> 'w \<Rightarrow> (error + 'w provider) \<times> 'w"
  newDockerProvider :: "'w \<Rightarrow> (error + 'w provider) \<times> 'w"

text \<open>\<^verbatim>\<open>func New(config *Config) (*K8S, error)\<close>\<close>

definition New :: "'w constructors \<Rightarrow> Config \<Rightarrow> 'w world \<Rightarrow> (error + 'w K8S) \<times> 'w world" where
  "New cs cfg w =
     (if EcsEnabled cfg \<and> DockerEnabled cfg
      then (Inl (Errorf ''only one provider can be enabled''), w)
      else
        case (if EcsEnabled cfg then newEcsProvider cs (EcsConfig cfg) (backend w)
              else newDockerProvider cs (backend w)) of
          (Inl err, b) \<Rightarrow> (Inl err, w\<lparr>backend := b\<rparr>)
        | (Inr p, b) \<Rightarrow>
            (Inr \<lparr>config = cfg, pods = [], handles = [], updateCh = [], provider = p,
                  resourceVersion = 0\<rparr>,
             w\<lparr>backend := b\<rparr>))"

text \<open>\<^verbatim>\<open>func (k *K8S) initServer()\<close>: it registers the routes and starts a goroutine that is
  to start the server, \<^verbatim>\<open>go func() { e.Start("0.0.0.0:1323") }()\<close>. It returns without
  waiting for it: the server is not listening yet.\<close>

definition initServer :: "'w K8S \<Rightarrow> 'w world \<Rightarrow> 'w world" where
  "initServer k w = w\<lparr>pending := pending w @ [''0.0.0.0:1323'']\<rparr>"

text \<open>What \<^verbatim>\<open>e.Start(address)\<close> of the echo library does once its goroutine runs: whether
  it opens the port, and the lines it prints to standard output (its start line).\<close>

record echo =
  opens :: "string \<Rightarrow> bool"
  prints :: "string \<Rightarrow> string list"

text \<open>The oldest server goroutine that has not run yet runs \<^verbatim>\<open>e.Start\<close>.\<close>

definition serve :: "echo \<Rightarrow> 'w world \<Rightarrow> 'w world" where
  "serve srv w =
     (case pending w of
        [] \<Rightarrow> w
      | a # as \<Rightarrow>
          w\<lparr>pending := as,
            listening := (if opens srv a then listening w @ [a] else listening w),
            stdout := stdout w @ prints srv a\<rparr>)"

text \<open>
  The server goroutine runs concurrently with the rest of \<^verbatim>\<open>Run\<close> and of \<^verbatim>\<open>main\<close>. It acts
  on the port and on standard output only, which \<^verbatim>\<open>deploy\<close> and \<^verbatim>\<open>GatherLogs\<close> do not touch,
  so a run is settled by where on the main line the goroutine gets to run: before
  \<^verbatim>\<open>deploy\<close> has returned, after \<^verbatim>\<open>Run\<close> has returned and before \<^verbatim>\<open>main\<close> reports its error,
  after that report, after the logs are gathered, or not before the process exits.
\<close>

datatype schedule = BeforeDeploy | AfterRun | AfterReport | AfterGatherLogs | NotInTime

text \<open>The goroutine runs at the point \<open>here\<close> of the main line when the schedule names it.\<close>

definition tick :: "echo \<Rightarrow> schedule \<Rightarrow> schedule \<Rightarrow> 'w world \<Rightarrow> 'w world" where
  "tick srv sched here w = (if sched = here then serve srv w else w)"

text \<open>The driver task of \<^verbatim>\<open>deploy\<close> for a control-plane address and an instance count. The
  count is a \<^verbatim>\<open>uint64\<close> that \<^verbatim>\<open>strconv.Itoa(int(k.config.Instances))\<close> reads as a signed
  64-bit \<^verbatim>\<open>int\<close>.\<close>

definition driverTask :: "string \<Rightarrow> 64 word \<Rightarrow> Task" where
  "driverTask addr n =
     \<lparr>Task_Name = ''spark-pi'',
      Task_Image = ''apache/spark'',
      Task_Args =
        [''/bin/bash'', ''-c'',
         ''cd .. && ./bin/spark-submit --master k8s://http://'' @ addr @
         '':1323 --deploy-mode client --name spark-pi --class org.apache.spark.examples.SparkPi --conf spark.executor.instances='' @
         Itoa (sint n) @
         '' --conf spark.kubernetes.container.image=apache/spark:latest ./examples/jars/spark-examples_2.12-3.5.0.jar''],
      Task_Env = Map.empty\<rparr>"

text \<open>\<^verbatim>\<open>func (k *K8S) deploy() error\<close>. The configuration is shared through a pointer, so the
  address written in Docker mode stays in \<^verbatim>\<open>k.config\<close>.\<close>

definition deploy :: "'w K8S \<Rightarrow> 'w world \<Rightarrow> outcome \<times> 'w K8S \<times> 'w world" where
  "deploy k w =
     (let k1 = (if DockerEnabled (config k)
                then k\<lparr>config := (config k)\<lparr>ControlPlaneAddr := ''host.docker.internal''\<rparr>\<rparr>
                else k)
      in
      if ControlPlaneAddr (config k1) = []
      then (Returned (Some (Errorf ''control plane public address is required'')), k1, w)
      else
        let task = driverTask (ControlPlaneAddr (config k1)) (Instances (config k1));
            w1 = w\<lparr>submitted := submitted w @ [task],
                   slog := slog w @ [Info ''Using control plane address''
                     [(''control-plane-addr'', ControlPlaneAddr (config k1))]]\<rparr>
        in case CreateTask (provider k1) task (backend w1) of
             None \<Rightarrow> (NoReturn, k1, w1)
           | Some (Inl err, b) \<Rightarrow> (Returned (Some err), k1, w1\<lparr>backend := b\<rparr>)
           | Some (Inr handle, b) \<Rightarrow>
              (let handle1 = handle\<lparr>Handle_Name := ''spark-pi''\<rparr>;
                   k2 = addHandle handle1 k1;
                   w2 = w1\<lparr>backend := b,
                          slog := slog w1 @ [Info ''deploy task created''
                            [(''name'', Handle_Name handle1), (''id'', Handle_Id handle1)]]\<rparr>
               in case WaitForTask (provider k2) handle1 (backend w2) of
                    None \<Rightarrow> (NoReturn, k2, w2)
                  | Some (Some err, b') \<Rightarrow> (Returned (Some err), k2, w2\<lparr>backend := b'\<rparr>)
                  | Some (None, b') \<Rightarrow> (Returned None, k2, w2\<lparr>backend := b'\<rparr>)))"

text \<open>\<^verbatim>\<open>func (k *K8S) Run() error { k.initServer(); return k.deploy() }\<close>, in a run in which
  the server goroutine is scheduled as \<open>sched\<close> says.\<close>

definition Run :: "echo \<Rightarrow> schedule \<Rightarrow> 'w K8S \<Rightarrow> 'w world \<Rightarrow> outcome \<times> 'w K8S \<times> 'w world" where
  "Run srv sched k w = deploy k (tick srv sched BeforeDeploy (initServer k w))"

section \<open>Gathering the logs and the main program\<close>

text \<open>The message of an error, as \<^verbatim>\<open>%v\<close> prints it.\<close>

fun Error_msg :: "error \<Rightarrow> string" where
  "Error_msg (Errorf m) = m"
| "Error_msg (External m) = m"

text \<open>
  What \<^verbatim>\<open>GatherLogs\<close> asks of the operating system: the clock (\<^verbatim>\<open>time.Now().UTC().UnixMilli()\<close>),
  \<^verbatim>\<open>filepath.Join\<close>, \<^verbatim>\<open>os.MkdirAll\<close> and \<^verbatim>\<open>os.WriteFile\<close>. They act on the same outside
  state as the provider.
\<close>

record 'w os =
  UnixMilli :: "'w \<Rightarrow> int"
  Join :: "string \<Rightarrow> string \<Rightarrow> string"
  MkdirAll :: "string \<Rightarrow> 'w \<Rightarrow> error option \<times> 'w"
  WriteFile :: "string \<Rightarrow> string \<Rightarrow> 'w \<Rightarrow> error option \<times> 'w"

text \<open>The loop of \<^verbatim>\<open>GatherLogs\<close> over \<^verbatim>\<open>k.handles\<close>: it stops at the first error.\<close>

fun gatherHandles ::
  "'w os \<Rightarrow> 'w provider \<Rightarrow> string \<Rightarrow> taskHandle list \<Rightarrow> 'w \<Rightarrow> outcome \<times> 'w" where
  "gatherHandles sys p logDir [] b = (Returned None, b)"
| "gatherHandles sys p logDir (handle # hs) b =
     (case GetLogs p handle b of
        None \<Rightarrow> (NoReturn, b)
      | Some (Inl err, b1) \<Rightarrow> (Returned (Some err), b1)
      | Some (Inr logs, b1) \<Rightarrow>
          (case WriteFile sys (Join sys logDir (Handle_Name handle @ ''.log'')) logs b1 of
             (Some err, b2) \<Rightarrow> (Returned (Some err), b2)
           | (None, b2) \<Rightarrow> gatherHandles sys p logDir hs b2))"

text \<open>\<^verbatim>\<open>func (k *K8S) GatherLogs() error\<close>\<close>

definition GatherLogs :: "'w os \<Rightarrow> 'w K8S \<Rightarrow> 'w world \<Rightarrow> outcome \<times> 'w world" where
  "GatherLogs sys k w =
     (let w1 = w\<lparr>slog := slog w @ [Info ''Gathering logs...'' []]\<rparr>;
          logDir = Join sys ''logs'' (Itoa (UnixMilli sys (backend w1)))
      in case MkdirAll sys logDir (backend w1) of
           (Some err, b) \<Rightarrow> (Returned (Some err), w1\<lparr>backend := b\<rparr>)
         | (None, b) \<Rightarrow>
             (case gatherHandles sys (provider k) logDir (handles k) b of
                (out, b') \<Rightarrow> (out, w1\<lparr>backend := b'\<rparr>)))"

text \<open>
  \<^verbatim>\<open>func main()\<close>, for the configuration the flags gave and a run in which no signal
  arrives:
  \<^verbatim>\<open>
  core, err := sparkanywhere.New(cfg)
  if err != nil { fmt.Printf("Error creating sparkanywhere: %v\n", err); os.Exit(1) }
  go func() {
      if err := core.Run(); err != nil { fmt.Printf("Error running sparkanywhere: %v\n", err) }
      close(doneCh)
  }()
  select { case <-doneCh: case <-sChan: fmt.Printf("Shutting down...\n") }
  core.GatherLogs()
  \<close>
  The error of \<^verbatim>\<open>GatherLogs\<close> is dropped, and \<^verbatim>\<open>main\<close> returns: the exit status is 0. When
  the process stays, the server goroutine gets to run if it has not yet.
\<close>

definition main ::
  "'w constructors \<Rightarrow> 'w os \<Rightarrow> echo \<Rightarrow> schedule \<Rightarrow> Config \<Rightarrow> 'w world \<Rightarrow> exit \<times> 'w world" where
  "main cs sys srv sched cfg w =
     (case New cs cfg w of
        (Inl err, w1) \<Rightarrow>
          (Exit 1,
           w1\<lparr>stdout := stdout w1 @ [''Error creating sparkanywhere: '' @ Error_msg err @ [CHR 0x0A]]\<rparr>)
      | (Inr core, w1) \<Rightarrow>
          (case Run srv sched core w1 of
             (Returned r, core', w2) \<Rightarrow>
               (let w2' = tick srv sched AfterRun w2;
                    w3 = (case r of
                            None \<Rightarrow> w2'
                          | Some err \<Rightarrow>
                              w2'\<lparr>stdout := stdout w2' @
                                [''Error running sparkanywhere: '' @ Error_msg err @ [CHR 0x0A]]\<rparr>);
                    w3' = tick srv sched AfterReport w3
                in case GatherLogs sys core' w3' of
                     (Returned _, w4) \<Rightarrow> (Exit 0, tick srv sched AfterGatherLogs w4)
                   | (Panicked m, w4) \<Rightarrow> (Crash m, w4)
                   | (_, w4) \<Rightarrow> (Stays, serve srv w4))
           | (Panicked m, core', w2) \<Rightarrow> (Crash m, w2)
           | (_, core', w2) \<Rightarrow> (Stays, serve srv w2)))"

section \<open>The managed-service (ECS) provider\<close>

text \<open>
  The AWS SDK hands out its string fields as pointers (\<^verbatim>\<open>*string\<close>), and
  \<^verbatim>\<open>aws.String(v)\<close> returns the address of a fresh variable holding \<open>v\<close>. The provider
  compares and dereferences such pointers, so the strings live in a store: an address
  is a position in \<open>heap\<close>, and \<open>None\<close> is the nil pointer.
\<close>

type_synonym ptr = "nat option"

text \<open>\<^verbatim>\<open>ecs.Task\<close>, the field the provider reads.\<close>

record EcsTask =
  LastStatus :: ptr

text \<open>
  \<^verbatim>\<open>type ecsProvider struct\<close>. The two calls of the ECS service that the task methods make
  are steps of a backend of state \<open>'b\<close>: \<^verbatim>\<open>RunTask\<close> (cluster, task definition, container
  name, and the task whose arguments and environment override the container's) answers
  with the ARNs of the tasks started, \<^verbatim>\<open>DescribeTasks\<close> (cluster, task id) with the last
  status of each task described; a missing value is a nil pointer in the SDK's output.
\<close>

record 'b ecsProvider =
  ecs_config :: ECSConfig
  svc_RunTask :: "string \<Rightarrow> string \<Rightarrow> string \<Rightarrow> Task \<Rightarrow> 'b \<Rightarrow> (error + string option list) \<times> 'b"
  svc_DescribeTasks :: "string \<Rightarrow> string \<Rightarrow> 'b \<Rightarrow> (error + string option list) \<times> 'b"
  taskDefinitionName :: string
  taskDefinitionContainerName :: string

text \<open>The state the provider's methods run in: the backend, the store of string
  variables, the seconds spent in \<^verbatim>\<open>time.Sleep\<close>, and the provider's log.\<close>

record 'b ecs_state =
  aws :: 'b
  heap :: "string list"
  slept :: nat
  ecs_log :: "LogEntry list"

text \<open>How a call ends when it ends: it returns a value or it panics.\<close>

datatype 'a call = Ret 'a | Panic string

text \<open>\<^verbatim>\<open>func String(v string) *string { return &v }\<close>\<close>

definition aws_String :: "string \<Rightarrow> 'b ecs_state \<Rightarrow> nat \<times> 'b ecs_state" where
  "aws_String v s = (length (heap s), s\<lparr>heap := heap s @ [v]\<rparr>)"

text \<open>\<^verbatim>\<open>*p\<close>: the string at the address; \<open>None\<close> is the nil-pointer panic.\<close>

definition deref :: "ptr \<Rightarrow> 'b ecs_state \<Rightarrow> string option" where
  "deref p s =
     (case p of
        None \<Rightarrow> None
      | Some a \<Rightarrow> if a < length (heap s) then Some (heap s ! a) else None)"

text \<open>The SDK decoding the tasks of a response: each status present gets a variable of
  its own.\<close>

fun unmarshal_tasks :: "string option list \<Rightarrow> 'b ecs_state \<Rightarrow> EcsTask list \<times> 'b ecs_state" where
  "unmarshal_tasks [] s = ([], s)"
| "unmarshal_tasks (None # vs) s =
     (case unmarshal_tasks vs s of (ts, s') \<Rightarrow> (\<lparr>LastStatus = None\<rparr> # ts, s'))"
| "unmarshal_tasks (Some v # vs) s =
     (case aws_String v s of (p, s1) \<Rightarrow>
        (case unmarshal_tasks vs s1 of (ts, s') \<Rightarrow> (\<lparr>LastStatus = Some p\<rparr> # ts, s')))"

text \<open>\<^verbatim>\<open>e.svc.DescribeTasks(&ecs.DescribeTasksInput{Cluster: ..., Tasks: ...})\<close>\<close>

definition DescribeTasks ::
  "'b ecsProvider \<Rightarrow> string \<Rightarrow> string \<Rightarrow> 'b ecs_state \<Rightarrow> (error + EcsTask list) \<times> 'b ecs_state" where
  "DescribeTasks e cluster task s =
     (case svc_DescribeTasks e cluster task (aws s) of
        (Inl err, a) \<Rightarrow> (Inl err, s\<lparr>aws := a\<rparr>)
      | (Inr vs, a) \<Rightarrow> (case unmarshal_tasks vs (s\<lparr>aws := a\<rparr>) of (ts, s') \<Rightarrow> (Inr ts, s')))"

text \<open>\<^verbatim>\<open>time.Sleep(n * time.Second)\<close>\<close>

definition Sleep :: "nat \<Rightarrow> 'b ecs_state \<Rightarrow> 'b ecs_state" where
  "Sleep secs s = s\<lparr>slept := slept s + secs\<rparr>"

text \<open>
  \<^verbatim>\<open>func (e *ecsProvider) WaitForTask(handle *taskHandle) error\<close>:
  \<^verbatim>\<open>
  for {
      describeTasksOutput, err := e.svc.DescribeTasks(...)
      if err != nil { return err }
      if describeTasksOutput.Tasks[0].LastStatus == aws.String("STOPPED") { break }
      time.Sleep(1 * time.Second)
  }
  return nil
  \<close>
  The test compares the two pointers. The result is \<open>None\<close> when the loop never ends.
\<close>

partial_function (option) ecs_WaitForTask ::
  "'b ecsProvider \<Rightarrow> taskHandle \<Rightarrow> 'b ecs_state \<Rightarrow> (error option call \<times> 'b ecs_state) option" where
  "ecs_WaitForTask e handle s =
     (case DescribeTasks e (ClusterName (ecs_config e)) (Handle_Id handle) s of
        (Inl err, s1) \<Rightarrow> Some (Ret (Some err), s1)
      | (Inr tasks, s1) \<Rightarrow>
          (case tasks of
             [] \<Rightarrow> Some (Panic ''index out of range [0] with length 0'', s1)
           | t # _ \<Rightarrow>
               (case aws_String ''STOPPED'' s1 of (q, s2) \<Rightarrow>
                  if LastStatus t = Some q then Some (Ret None, s2)
                  else ecs_WaitForTask e handle (Sleep 1 s2))))"

text \<open>
  The loop of \<^verbatim>\<open>CreateTask\<close> (\<^verbatim>\<open>// block until it changes state\<close>), which reads the status
  through the pointer:
  \<^verbatim>\<open>
  for {
      describeTasksOutput, err := e.svc.DescribeTasks(...)
      if err != nil { return nil, err }
      if *describeTasksOutput.Tasks[0].LastStatus == "RUNNING" { e.log.Info(...); break }
      time.Sleep(5 * time.Second)
  }
  return handle, nil
  \<close>
\<close>

partial_function (option) ecs_CreateTask_poll ::
  "'b ecsProvider \<Rightarrow> taskHandle \<Rightarrow> 'b ecs_state \<Rightarrow> ((error + taskHandle) call \<times> 'b ecs_state) option" where
  "ecs_CreateTask_poll e handle s =
     (case DescribeTasks e (ClusterName (ecs_config e)) (Handle_Id handle) s of
        (Inl err, s1) \<Rightarrow> Some (Ret (Inl err), s1)
      | (Inr tasks, s1) \<Rightarrow>
          (case tasks of
             [] \<Rightarrow> Some (Panic ''index out of range [0] with length 0'', s1)
           | t # _ \<Rightarrow>
               (case deref (LastStatus t) s1 of
                  None \<Rightarrow> Some (Panic ''invalid memory address or nil pointer dereference'', s1)
                | Some status \<Rightarrow>
                    if status = ''RUNNING''
                    then Some (Ret (Inr handle),
                           s1\<lparr>ecs_log := ecs_log s1 @ [Info ''task is running''
                                 [(''taskArn'', Handle_Id handle)]]\<rparr>)
                    else ecs_CreateTask_poll e handle (Sleep 5 s1))))"

text \<open>\<^verbatim>\<open>func (e *ecsProvider) CreateTask(task *Task) (*taskHandle, error)\<close>\<close>

definition ecs_CreateTask ::
  "'b ecsProvider \<Rightarrow> Task \<Rightarrow> 'b ecs_state \<Rightarrow> ((error + taskHandle) call \<times> 'b ecs_state) option" where
  "ecs_CreateTask e task s =
     (let s0 = s\<lparr>ecs_log := ecs_log s @ [Info ''Creating task'' [(''task'', Task_Name task)]]\<rparr> in
      case svc_RunTask e (ClusterName (ecs_config e)) (taskDefinitionName e)
             (taskDefinitionContainerName e) task (aws s0) of
        (Inl err, a) \<Rightarrow> Some (Ret (Inl err), s0\<lparr>aws := a\<rparr>)
      | (Inr [], a) \<Rightarrow> Some (Panic ''index out of range [0] with length 0'', s0\<lparr>aws := a\<rparr>)
      | (Inr (None # _), a) \<Rightarrow>
          Some (Panic ''invalid memory address or nil pointer dereference'', s0\<lparr>aws := a\<rparr>)
      | (Inr (Some arn # _), a) \<Rightarrow>
          ecs_CreateTask_poll e \<lparr>Handle_Name = [], Handle_Id = arn\<rparr> (s0\<lparr>aws := a\<rparr>))"

text \<open>\<^verbatim>\<open>func (e *ecsProvider) GetLogs(handle *taskHandle) (string, error)\<close>\<close>

definition ecs_GetLogs :: "'b ecsProvider \<Rightarrow> taskHandle \<Rightarrow> error + string" where
  "ecs_GetLogs e handle = Inr ''TODO''"

section \<open>A sequence of creations\<close>

text \<open>
  Creations in one process, in the order in which they take \<^verbatim>\<open>createLock\<close>. Each call of
  \<^verbatim>\<open>createPod\<close> runs from the state the one before it left. A call that does not return
  is the last one: a panic ends the process, and a call that is suspended, or whose
  provider call never returns, keeps the lock.
\<close>

fun createPods :: "Pod list \<Rightarrow> 'w K8S \<Rightarrow> 'w world \<Rightarrow> outcome list \<times> 'w K8S \<times> 'w world" where
  "createPods [] k w = ([], k, w)"
| "createPods (p # ps) k w =
     (case createPod p k w of
        (Returned r, k1, w1) \<Rightarrow>
          (case createPods ps k1 w1 of (outs, k', w') \<Rightarrow> (Returned r # outs, k', w'))
      | (out, k1, w1) \<Rightarrow> ([out], k1, w1))"

text \<open>Two notions for the proofs about sequences. The event that \<^verbatim>\<open>createPod\<close> builds for a
  pod when the counter, after its increment, stands at \<open>rv\<close>:\<close>

definition added :: "Pod \<Rightarrow> 64 word \<Rightarrow> Event" where
  "added pod rv =
     \<lparr>Event_Type = ''ADDED'',
      Event_Object = pod\<lparr>Pod_Status := (Pod_Status pod)\<lparr>Phase := PodRunning\<rparr>,
        Pod_ObjectMeta := (Pod_ObjectMeta pod)\<lparr>ResourceVersion := Sprintf_d rv\<rparr>\<rparr>\<rparr>"

text \<open>and the events of a sequence of attempts, each given with how it ended, that starts
  with the counter at \<open>rv\<close>:\<close>

fun events_from :: "64 word \<Rightarrow> (Pod \<times> outcome) list \<Rightarrow> Event list" where
  "events_from rv [] = []"
| "events_from rv ((p, out) # xs) =
     (if out = Returned None then [added p (rv + 1)] else []) @ events_from (rv + 1) xs"

section \<open>Example values\<close>

text \<open>A pod as a Spark driver submits it, a backend that counts the tasks it was asked to
  launch and refuses the ones named \<open>bad\<close>, and a control plane as \<^verbatim>\<open>New\<close> leaves it.\<close>

definition exContainer :: Container where
  "exContainer =
     \<lparr>Container_Name = ''executor'', Container_Image = ''apache/spark'',
      Container_Args = [''executor''],
      Container_Env =
        [\<lparr>EnvVar_Name = ''SPARK_LOCAL_DIRS'', EnvVar_Value = ''/var/data''\<rparr>,
         \<lparr>EnvVar_Name = ''SPARK_USER'', EnvVar_Value = ''spark''\<rparr>]\<rparr>"

definition exPod :: "string \<Rightarrow> Container list \<Rightarrow> Pod" where
  "exPod name cs =
     \<lparr>Pod_ObjectMeta = \<lparr>Meta_Name = name, Meta_Namespace = ''default'', Meta_Labels = [],
                        ResourceVersion = []\<rparr>,
      Pod_Spec = \<lparr>Containers = cs\<rparr>,
      Pod_Status = \<lparr>Phase = []\<rparr>\<rparr>"

definition exProvider :: "nat provider" where
  "exProvider =
     \<lparr>CreateTask = (\<lambda>t n.
        if Task_Name t = ''bad'' then Some (Inl (External ''launch failed''), Suc n)
        else Some (Inr \<lparr>Handle_Name = [], Handle_Id = Task_Name t\<rparr>, Suc n)),
      WaitForTask = (\<lambda>h n. Some (None, n)),
      GetLogs = (\<lambda>h n. Some (Inr [], n))\<rparr>"

definition exConfig :: "bool \<Rightarrow> bool \<Rightarrow> string \<Rightarrow> Config" where
  "exConfig ecs docker addr =
     \<lparr>ControlPlaneAddr = addr, EcsEnabled = ecs, DockerEnabled = docker,
      EcsConfig = \<lparr>ClusterName = ''sparkanywhere-cluster'', SubnetId = ''subnet-1'',
                   SecurityGroup = ''sg-1''\<rparr>,
      Instances = 1\<rparr>"

text \<open>The same backend behind the managed-service provider, whose \<^verbatim>\<open>GetLogs\<close> answers
  \<open>TODO\<close>, and constructors that succeed.\<close>

definition exEcsProvider :: "nat provider" where
  "exEcsProvider = exProvider\<lparr>GetLogs := (\<lambda>h n. Some (Inr ''TODO'', n))\<rparr>"

definition exConstructors :: "nat constructors" where
  "exConstructors =
     \<lparr>newEcsProvider = (\<lambda>c n. (Inr exEcsProvider, n)),
      newDockerProvider = (\<lambda>n. (Inr exProvider, n))\<rparr>"

definition exK8S :: "Config \<Rightarrow> nat K8S" where
  "exK8S cfg =
     \<lparr>config = cfg, pods = [], handles = [], updateCh = [], provider = exProvider,
      resourceVersion = 0\<rparr>"

definition exWorld :: "nat world" where
  "exWorld =
     \<lparr>backend = 0, submitted = [], slog = [], pending = [], listening = [], stdout = []\<rparr>"

text \<open>A control plane with one watcher that has stopped reading: its queue holds 1000
  events.\<close>

definition exEvent :: Event where
  "exEvent = \<lparr>Event_Type = ''ADDED'', Event_Object = exPod ''exec-0'' [exContainer]\<rparr>"

definition exFullK8S :: "nat K8S" where
  "exFullK8S =
     (exK8S (exConfig False True []))\<lparr>updateCh := [\<lparr>cap = 1000, buf = replicate 1000 exEvent\<rparr>]\<rparr>"

text \<open>An event's object with the resource version the server assigned taken off again,
  as a client comparing it with what it submitted would do.\<close>

definition stripResourceVersion :: "Pod \<Rightarrow> Pod" where
  "stripResourceVersion pod =
     pod\<lparr>Pod_ObjectMeta := (Pod_ObjectMeta pod)\<lparr>ResourceVersion := []\<rparr>\<rparr>"

text \<open>An ECS backend that reports the task as \<open>STOPPED\<close> at every poll, and the state of a
  provider that has not yet called it.\<close>

definition exStoppedEcs :: "unit ecsProvider" where
  "exStoppedEcs =
     \<lparr>ecs_config = \<lparr>ClusterName = ''sparkanywhere-cluster'', SubnetId = ''subnet-1'',
                     SecurityGroup = ''sg-1''\<rparr>,
      svc_RunTask = (\<lambda>c d n t b. (Inr [Some ''arn:aws:ecs:task/1''], b)),
      svc_DescribeTasks = (\<lambda>c t b. (Inr [Some ''STOPPED''], b)),
      taskDefinitionName = ''sparkanywhere-cluster-taskdef:1'',
      taskDefinitionContainerName = ''primary''\<rparr>"

definition exEcsState :: "unit ecs_state" where
  "exEcsState = \<lparr>aws = (), heap = [], slept = 0, ecs_log = []\<rparr>"

text \<open>An operating system on which making the directory and writing the files succeed.\<close>

definition exOs :: "nat os" where
  "exOs =
     \<lparr>UnixMilli = (\<lambda>n. 1700000000000),
      Join = (\<lambda>a b. a @ ''/'' @ b),
      MkdirAll = (\<lambda>d n. (None, n)),
      WriteFile = (\<lambda>f c n. (None, n))\<rparr>"

text \<open>A provider that refuses every task and keeps what it was handed, and a control
  plane on it.\<close>

definition spyProvider :: "Task list provider" where
  "spyProvider =
     \<lparr>CreateTask = (\<lambda>t seen. Some (Inl (External ''refused''), seen @ [t])),
      WaitForTask = (\<lambda>h seen. Some (None, seen)),
      GetLogs = (\<lambda>h seen. Some (Inr [], seen))\<rparr>"

definition spyK8S :: "Task list K8S" where
  "spyK8S =
     \<lparr>config = exConfig False True [], pods = [], handles = [], updateCh = [],
      provider = spyProvider, resourceVersion = 0\<rparr>"

definition spyWorld :: "Task list world" where
  "spyWorld =
     \<lparr>backend = [], submitted = [], slog = [], pending = [], listening = [], stdout = []\<rparr>"

text \<open>An echo server that can open its port and prints its start line.\<close>

definition exSrv :: echo where
  "exSrv =
     \<lparr>opens = (\<lambda>a. True),
      prints = (\<lambda>a. [[CHR 0xE2, CHR 0x87, CHR 0xA8] @ '' http server started on [::]:1323''
                      @ [CHR 0x0A]])\<rparr>"

section \<open>Rejected and failed creations\<close>

text \<open>
  Claim C1, as the code has it. A pod whose container list does not have exactly one
  element makes \<^verbatim>\<open>createPod\<close> panic with the message
  \<open>only one container per pod is supported\<close>; no error value is returned. The panic
  comes before the task is built: the provider is not called (backend and call history
  are as before), and the pod list, the handles and the subscribers' queues are as
  before; only the resource-version counter has moved. \<^verbatim>\<open>createPod\<close> runs in the goroutine
  that \<^verbatim>\<open>postPods\<close> started, where nothing recovers the panic: it ends the whole process,
  with exit status 2. The handler's 200 answer races with that end, so the client
  receives either the answer with the pod echoed or nothing.
\<close>

theorem createPod_container_count_panics:
  assumes "length (Containers (Pod_Spec pod)) \<noteq> 1"
  shows "createPod pod k w =
           (Panicked ''only one container per pod is supported'',
            k\<lparr>resourceVersion := resourceVersion k + 1\<rparr>, w)
       \<and> postPods answered (Inr pod) k w =
           (if answered then Some (Inr (200, pod)) else None,
            Some (Panicked ''only one container per pod is supported''),
            Terminated (Crash ''only one container per pod is supported'') w)
       \<and> exit_status (Crash ''only one container per pod is supported'') = Some 2"
  using assms by (simp add: createPod_def postPods_def postPods_go_def)

text \<open>The theorem at a pod with two containers, in a run in which the process ends
  before the answer is out and in one in which the answer is out first.\<close>

theorem createPod_container_count_panics_witness:
  "createPod (exPod ''exec-1'' [exContainer, exContainer]) (exK8S (exConfig False True [])) exWorld =
     (Panicked ''only one container per pod is supported'',
      (exK8S (exConfig False True []))\<lparr>resourceVersion := 1\<rparr>, exWorld)
   \<and> postPods False (Inr (exPod ''exec-1'' [exContainer, exContainer]))
       (exK8S (exConfig False True [])) exWorld =
     (None, Some (Panicked ''only one container per pod is supported''),
      Terminated (Crash ''only one container per pod is supported'') exWorld)
   \<and> postPods True (Inr (exPod ''exec-1'' [exContainer, exContainer]))
       (exK8S (exConfig False True [])) exWorld =
     (Some (Inr (200, exPod ''exec-1'' [exContainer, exContainer])),
      Some (Panicked ''only one container per pod is supported''),
      Terminated (Crash ''only one container per pod is supported'') exWorld)"
proof -
  have "length (Containers (Pod_Spec (exPod ''exec-1'' [exContainer, exContainer]))) \<noteq> 1"
    by (simp add: exPod_def)
  from createPod_container_count_panics [OF this, of "exK8S (exConfig False True [])" exWorld False]
    createPod_container_count_panics [OF this, of "exK8S (exConfig False True [])" exWorld True]
  show ?thesis by (simp add: exK8S_def)
qed

text \<open>Against C1 as stated (a validation error is returned and the process goes on): a
  pod with no container ends \<^verbatim>\<open>createPod\<close> in the panic, and the process that served the
  request has ended, here before the client had an answer.\<close>

theorem createPod_no_container_counterexample:
  "fst (createPod (exPod ''exec-1'' []) (exK8S (exConfig False True [])) exWorld) =
     Panicked ''only one container per pod is supported''
   \<and> postPods False (Inr (exPod ''exec-1'' [])) (exK8S (exConfig False True [])) exWorld =
     (None, Some (Panicked ''only one container per pod is supported''),
      Terminated (Crash ''only one container per pod is supported'') exWorld)"
  by (simp add: createPod_def postPods_def postPods_go_def exPod_def)

text \<open>
  Claim C6. When \<^verbatim>\<open>Provider.CreateTask\<close> fails for a pod a client submitted, the client
  still has its 200 answer with the pod echoed, the goroutine's \<^verbatim>\<open>createPod\<close> returns the
  provider's error, and that error is written to the log. Of the control plane's state
  only the resource-version counter has moved: nothing is appended to the pod list or
  to the handles, and no subscriber's queue has received an event.
\<close>

theorem postPods_provider_failure:
  assumes "length (Containers (Pod_Spec pod)) = 1"
    and "CreateTask (provider k) (podTask pod (Containers (Pod_Spec pod) ! 0)) (backend w) =
           Some (Inl err, b)"
  shows "postPods answered (Inr pod) k w =
     (Some (Inr (200, pod)), Some (Returned (Some err)),
      Serving
        (k\<lparr>resourceVersion := resourceVersion k + 1\<rparr>)
        (w\<lparr>backend := b,
           submitted := submitted w @ [podTask pod (Containers (Pod_Spec pod) ! 0)],
           slog := slog w @ [Error ''error creating pod'' err]\<rparr>))"
  using assms by (simp add: postPods_def postPods_go_def createPod_def Let_def)

text \<open>The theorem at a pod that the example backend refuses.\<close>

theorem postPods_provider_failure_witness:
  "postPods True (Inr (exPod ''bad'' [exContainer])) (exK8S (exConfig False True [])) exWorld =
     (Some (Inr (200, exPod ''bad'' [exContainer])),
      Some (Returned (Some (External ''launch failed''))),
      Serving
        ((exK8S (exConfig False True []))\<lparr>resourceVersion := 1\<rparr>)
        (exWorld\<lparr>backend := 1,
           submitted := [podTask (exPod ''bad'' [exContainer]) exContainer],
           slog := [Error ''error creating pod'' (External ''launch failed'')]\<rparr>))"
proof -
  have one: "length (Containers (Pod_Spec (exPod ''bad'' [exContainer]))) = 1"
    by (simp add: exPod_def)
  have call: "CreateTask (provider (exK8S (exConfig False True [])))
      (podTask (exPod ''bad'' [exContainer])
         (Containers (Pod_Spec (exPod ''bad'' [exContainer])) ! 0))
      (backend exWorld) = Some (Inl (External ''launch failed''), 1)"
    by (simp add: exK8S_def exProvider_def podTask_def exPod_def exWorld_def)
  from postPods_provider_failure [OF one call]
  show ?thesis by (simp add: exK8S_def exWorld_def exPod_def)
qed

section \<open>Broadcasting the event\<close>

lemma broadcast_eq:
  "broadcast e cs =
     (map (\<lambda>c. c\<lparr>buf := buf c @ [e]\<rparr>) (takeWhile (\<lambda>c. length (buf c) < cap c) cs)
        @ dropWhile (\<lambda>c. length (buf c) < cap c) cs,
      list_all (\<lambda>c. length (buf c) < cap c) cs)"
  by (induction cs) (auto simp: chan_send_def split: prod.splits)

lemma takeWhile_all: "list_all P xs \<Longrightarrow> takeWhile P xs = xs \<and> dropWhile P xs = []"
  by (induction xs) auto

text \<open>What \<^verbatim>\<open>createPod\<close> does once the provider has launched the task.\<close>

lemma createPod_success:
  assumes "length (Containers (Pod_Spec pod)) = 1"
    and "CreateTask (provider k) (podTask pod (Containers (Pod_Spec pod) ! 0)) (backend w) =
           Some (Inr h, b)"
  shows "createPod pod k w =
     ((if list_all (\<lambda>c. length (buf c) < cap c) (updateCh k) then Returned None
       else BlockedOnSend),
      k\<lparr>resourceVersion := resourceVersion k + 1,
        handles := handles k @ [h\<lparr>Handle_Name := Meta_Name (Pod_ObjectMeta pod)\<rparr>],
        pods := pods k @ [pod\<lparr>Pod_Status := (Pod_Status pod)\<lparr>Phase := PodRunning\<rparr>\<rparr>],
        updateCh :=
          fst (broadcast \<lparr>Event_Type = ''ADDED'',
                 Event_Object = pod\<lparr>Pod_Status := (Pod_Status pod)\<lparr>Phase := PodRunning\<rparr>,
                    Pod_ObjectMeta := (Pod_ObjectMeta pod)\<lparr>ResourceVersion :=
                      Sprintf_d (resourceVersion k + 1)\<rparr>\<rparr>\<rparr> (updateCh k))\<rparr>,
      w\<lparr>backend := b,
        submitted := submitted w @ [podTask pod (Containers (Pod_Spec pod) ! 0)],
        slog := slog w @ [Info ''task created''
                  [(''name'', Handle_Name h), (''id'', Handle_Id h)]]\<rparr>)"
  using assms
  by (simp add: createPod_def Let_def addHandle_def broadcast_eq split: bool.splits)

lemma createPod_Returned_None:
  assumes "createPod pod k w = (Returned None, k', w')"
  shows "length (Containers (Pod_Spec pod)) = 1
       \<and> list_all (\<lambda>c. length (buf c) < cap c) (updateCh k)
       \<and> (\<exists>h b. CreateTask (provider k) (podTask pod (Containers (Pod_Spec pod) ! 0))
                   (backend w) = Some (Inr h, b))"
  using assms
  by (auto simp add: createPod_def Let_def addHandle_def broadcast_eq
      split: bool.splits if_splits option.splits sum.splits prod.splits)

text \<open>
  Claim C5, as the code has it. After a creation that returned nil, every subscriber's
  queue has one more event at its end, of type \<open>ADDED\<close>. Its object is the submitted
  descriptor with two fields written by the server: the resource version (the decimal
  counter value) and the status phase, set to \<open>Running\<close>. Putting the submitted values
  back into these two fields gives the submitted descriptor, so no third field differs.
\<close>

theorem createPod_event_object:
  assumes "createPod pod k w = (Returned None, k', w')"
  shows "\<exists>obj. updateCh k' =
             map (\<lambda>c. c\<lparr>buf := buf c @ [\<lparr>Event_Type = ''ADDED'', Event_Object = obj\<rparr>]\<rparr>)
               (updateCh k)
         \<and> ResourceVersion (Pod_ObjectMeta obj) = Sprintf_d (resourceVersion k + 1)
         \<and> Phase (Pod_Status obj) = PodRunning
         \<and> obj\<lparr>Pod_ObjectMeta := (Pod_ObjectMeta obj)\<lparr>ResourceVersion :=
                  ResourceVersion (Pod_ObjectMeta pod)\<rparr>,
               Pod_Status := (Pod_Status obj)\<lparr>Phase := Phase (Pod_Status pod)\<rparr>\<rparr> = pod"
proof -
  from createPod_Returned_None [OF assms] obtain h b where
    one: "length (Containers (Pod_Spec pod)) = 1"
    and room: "list_all (\<lambda>c. length (buf c) < cap c) (updateCh k)"
    and call: "CreateTask (provider k) (podTask pod (Containers (Pod_Spec pod) ! 0)) (backend w) =
                 Some (Inr h, b)"
    by blast
  let ?obj = "pod\<lparr>Pod_Status := (Pod_Status pod)\<lparr>Phase := PodRunning\<rparr>,
                 Pod_ObjectMeta := (Pod_ObjectMeta pod)\<lparr>ResourceVersion :=
                   Sprintf_d (resourceVersion k + 1)\<rparr>\<rparr>"
  have "updateCh k' =
      map (\<lambda>c. c\<lparr>buf := buf c @ [\<lparr>Event_Type = ''ADDED'', Event_Object = ?obj\<rparr>]\<rparr>) (updateCh k)"
    using assms createPod_success [OF one call] room
    by (auto simp: broadcast_eq takeWhile_all)
  then show ?thesis
    by (intro exI [of _ ?obj]) simp
qed

lemma Sprintf_d_1: "Sprintf_d 1 = ''1''"
  by (simp add: Sprintf_d_def FormatUint.simps digit_def)

text \<open>The theorem at the example pod, created with one watcher registered.\<close>

theorem createPod_event_object_witness:
  "\<exists>obj. updateCh (fst (snd (createPod (exPod ''exec-1'' [exContainer])
                     (snd (getPods ''true'' (exK8S (exConfig False True [])))) exWorld))) =
            [\<lparr>cap = 1000, buf = [\<lparr>Event_Type = ''ADDED'', Event_Object = obj\<rparr>]\<rparr>]
      \<and> ResourceVersion (Pod_ObjectMeta obj) = ''1''
      \<and> Phase (Pod_Status obj) = ''Running''
      \<and> obj\<lparr>Pod_ObjectMeta := (Pod_ObjectMeta obj)\<lparr>ResourceVersion := []\<rparr>,
            Pod_Status := (Pod_Status obj)\<lparr>Phase := []\<rparr>\<rparr> = exPod ''exec-1'' [exContainer]"
proof -
  let ?k = "snd (getPods ''true'' (exK8S (exConfig False True [])))"
  let ?r = "createPod (exPod ''exec-1'' [exContainer]) ?k exWorld"
  have "fst ?r = Returned None"
    by (simp add: createPod_def getPods_def exK8S_def exPod_def exProvider_def podTask_def
        exWorld_def Let_def chan_send_def addHandle_def)
  then have "?r = (Returned None, fst (snd ?r), snd (snd ?r))"
    by (metis prod.collapse)
  from createPod_event_object [OF this]
  show ?thesis
    by (simp add: getPods_def exK8S_def Sprintf_d_1 PodRunning_def exPod_def)
qed

text \<open>Against C5 as stated: the example pod is submitted with an empty phase and an empty
  resource version; the creation succeeds, and the object the watcher receives, with
  its resource version taken off, is the pod with phase \<open>Running\<close>, which is not the pod
  submitted.\<close>

theorem createPod_event_object_counterexample:
  "fst (createPod (exPod ''exec-1'' [exContainer])
          (snd (getPods ''true'' (exK8S (exConfig False True [])))) exWorld) = Returned None
   \<and> map_option (stripResourceVersion \<circ> Event_Object \<circ> fst)
       (watch_recv 0 (fst (snd (createPod (exPod ''exec-1'' [exContainer])
          (snd (getPods ''true'' (exK8S (exConfig False True [])))) exWorld)))) =
     Some (exPod ''exec-1'' [exContainer]\<lparr>Pod_Status := \<lparr>Phase = ''Running''\<rparr>\<rparr>)
   \<and> exPod ''exec-1'' [exContainer]\<lparr>Pod_Status := \<lparr>Phase = ''Running''\<rparr>\<rparr>
       \<noteq> exPod ''exec-1'' [exContainer]"
  by (simp add: createPod_def getPods_def exK8S_def exPod_def exProvider_def podTask_def
      exWorld_def Let_def chan_send_def addHandle_def watch_recv_def stripResourceVersion_def
      PodRunning_def)

text \<open>
  Claim C4, as the code has it. A watcher registers a queue of capacity 1000. When the
  provider has launched the task and some subscriber's queue is full, \<^verbatim>\<open>createPod\<close> does
  not return: it is suspended on the send to the first full subscriber, inside the
  section that holds \<^verbatim>\<open>createLock\<close>, with the pod already appended to the pod list. No
  overflow policy is applied: the subscribers registered before the full one have the
  event at the end of their queues, the full one and all after it are as they were (no
  event dropped, no subscriber removed).
\<close>

theorem createPod_full_queue_blocks:
  assumes "length (Containers (Pod_Spec pod)) = 1"
    and "CreateTask (provider k) (podTask pod (Containers (Pod_Spec pod) ! 0)) (backend w) =
           Some (Inr h, b)"
    and "\<exists>c \<in> set (updateCh k). cap c \<le> length (buf c)"
    and "createPod pod k w = (out, k', w')"
  shows "out = BlockedOnSend
       \<and> pods k' = pods k @ [pod\<lparr>Pod_Status := (Pod_Status pod)\<lparr>Phase := PodRunning\<rparr>\<rparr>]
       \<and> updateCh k' =
           map (\<lambda>c. c\<lparr>buf := buf c @
                  [\<lparr>Event_Type = ''ADDED'',
                    Event_Object = pod\<lparr>Pod_Status := (Pod_Status pod)\<lparr>Phase := PodRunning\<rparr>,
                      Pod_ObjectMeta := (Pod_ObjectMeta pod)\<lparr>ResourceVersion :=
                        Sprintf_d (resourceVersion k + 1)\<rparr>\<rparr>\<rparr>]\<rparr>)
               (takeWhile (\<lambda>c. length (buf c) < cap c) (updateCh k))
           @ dropWhile (\<lambda>c. length (buf c) < cap c) (updateCh k)
       \<and> dropWhile (\<lambda>c. length (buf c) < cap c) (updateCh k) \<noteq> []
       \<and> snd (getPods ''true'' k) = k\<lparr>updateCh := updateCh k @ [\<lparr>cap = 1000, buf = []\<rparr>]\<rparr>"
proof -
  have full: "\<not> list_all (\<lambda>c. length (buf c) < cap c) (updateCh k)"
    using assms(3) by (auto simp: list_all_iff not_less)
  then have "dropWhile (\<lambda>c. length (buf c) < cap c) (updateCh k) \<noteq> []"
    by (auto simp: list_all_iff)
  then show ?thesis
    using assms(4) createPod_success [OF assms(1,2)] full
    by (auto simp: broadcast_eq getPods_def)
qed

text \<open>The theorem at the control plane whose only watcher has a full queue.\<close>

theorem createPod_full_queue_blocks_witness:
  "fst (createPod (exPod ''exec-1'' [exContainer]) exFullK8S exWorld) = BlockedOnSend
   \<and> length (pods (fst (snd (createPod (exPod ''exec-1'' [exContainer]) exFullK8S exWorld)))) = 1
   \<and> updateCh (fst (snd (createPod (exPod ''exec-1'' [exContainer]) exFullK8S exWorld))) =
       updateCh exFullK8S
   \<and> updateCh (snd (getPods ''true'' exFullK8S)) = updateCh exFullK8S @ [\<lparr>cap = 1000, buf = []\<rparr>]"
proof -
  let ?p = "exPod ''exec-1'' [exContainer]"
  let ?r = "createPod ?p exFullK8S exWorld"
  have one: "length (Containers (Pod_Spec ?p)) = 1"
    by (simp add: exPod_def)
  have call: "CreateTask (provider exFullK8S) (podTask ?p (Containers (Pod_Spec ?p) ! 0))
      (backend exWorld) = Some (Inr \<lparr>Handle_Name = [], Handle_Id = ''exec-1''\<rparr>, 1)"
    by (simp add: exFullK8S_def exK8S_def exProvider_def podTask_def exPod_def exWorld_def)
  have full: "\<exists>c \<in> set (updateCh exFullK8S). cap c \<le> length (buf c)"
    by (simp add: exFullK8S_def exK8S_def)
  have r: "?r = (fst ?r, fst (snd ?r), snd (snd ?r))"
    by simp
  from createPod_full_queue_blocks [OF one call full r]
  show ?thesis
    by (simp add: exFullK8S_def exK8S_def)
qed

text \<open>A watcher that does not read, and the example pod created over and over: while
  the queue has room every creation returns and leaves one more event in it.\<close>

lemma exProvider_launches:
  "provider k = exProvider \<Longrightarrow> backend w = n \<Longrightarrow>
   CreateTask (provider k)
     (podTask (exPod ''exec-1'' [exContainer])
        (Containers (Pod_Spec (exPod ''exec-1'' [exContainer])) ! 0)) (backend w) =
   Some (Inr \<lparr>Handle_Name = [], Handle_Id = ''exec-1''\<rparr>, Suc n)"
  by (simp add: exProvider_def podTask_def exPod_def)

lemma createPods_fill:
  assumes "provider k = exProvider"
    and "updateCh k = [c]" and "cap c = 1000" and "length (buf c) + n \<le> 1000"
    and "createPods (replicate n (exPod ''exec-1'' [exContainer])) k w = (outs, k', w')"
  shows "outs = replicate n (Returned None) \<and> provider k' = exProvider
       \<and> (\<exists>c'. updateCh k' = [c'] \<and> cap c' = 1000 \<and> length (buf c') = length (buf c) + n)"
  using assms
proof (induction n arbitrary: k w c outs k' w')
  case 0
  then show ?case by simp
next
  case (Suc n)
  let ?p = "exPod ''exec-1'' [exContainer]"
  have one: "length (Containers (Pod_Spec ?p)) = 1" by (simp add: exPod_def)
  note call = exProvider_launches [OF Suc.prems(1) refl, of w]
  have room: "list_all (\<lambda>c. length (buf c) < cap c) (updateCh k)"
    using Suc.prems(2,3,4) by simp
  obtain k1 w1 c1 where
    step: "createPod ?p k w = (Returned None, k1, w1)"
    and k1: "provider k1 = exProvider" "updateCh k1 = [c1]" "cap c1 = 1000"
      "length (buf c1) = Suc (length (buf c))"
    using createPod_success [OF one call] room Suc.prems(1,2,3)
    by (simp add: broadcast_eq)
  obtain outs2 k2 w2 where rest: "createPods (replicate n ?p) k1 w1 = (outs2, k2, w2)"
    by (cases "createPods (replicate n ?p) k1 w1")
  have "length (buf c1) + n \<le> 1000" using k1(4) Suc.prems(4) by simp
  from Suc.IH [OF k1(1) k1(2) k1(3) this rest] Suc.prems(5) step rest k1(4)
  show ?case by auto
qed

text \<open>Against C4 as stated: one watcher registers and reads nothing; 1000 creations fill
  its queue. The next creation is suspended on the send, and the queue of the watcher,
  which is still registered, still holds 1000 events: none was dropped to make room.\<close>

theorem createPod_full_queue_counterexample:
  "fst (createPod (exPod ''exec-1'' [exContainer])
         (fst (snd (createPods (replicate 1000 (exPod ''exec-1'' [exContainer]))
                      (snd (getPods ''true'' (exK8S (exConfig False True [])))) exWorld)))
         (snd (snd (createPods (replicate 1000 (exPod ''exec-1'' [exContainer]))
                      (snd (getPods ''true'' (exK8S (exConfig False True [])))) exWorld))))
     = BlockedOnSend
   \<and> map (length \<circ> buf)
       (updateCh (fst (snd (createPod (exPod ''exec-1'' [exContainer])
         (fst (snd (createPods (replicate 1000 (exPod ''exec-1'' [exContainer]))
                      (snd (getPods ''true'' (exK8S (exConfig False True [])))) exWorld)))
         (snd (snd (createPods (replicate 1000 (exPod ''exec-1'' [exContainer]))
                      (snd (getPods ''true'' (exK8S (exConfig False True [])))) exWorld)))))))
     = [1000]"
proof -
  let ?p = "exPod ''exec-1'' [exContainer]"
  let ?k0 = "snd (getPods ''true'' (exK8S (exConfig False True [])))"
  let ?R = "createPods (replicate 1000 ?p) ?k0 exWorld"
  have one: "length (Containers (Pod_Spec ?p)) = 1" by (simp add: exPod_def)
  have r: "?R = (fst ?R, fst (snd ?R), snd (snd ?R))" by simp
  have "provider ?k0 = exProvider" "updateCh ?k0 = [\<lparr>cap = 1000, buf = []\<rparr>]"
    by (simp_all add: getPods_def exK8S_def)
  from createPods_fill [OF this _ _ r] obtain c' where
    k: "provider (fst (snd ?R)) = exProvider" "updateCh (fst (snd ?R)) = [c']" "cap c' = 1000"
      "length (buf c') = 1000"
    by auto
  note call = exProvider_launches [OF k(1) refl, of "snd (snd ?R)"]
  show ?thesis
    using createPod_success [OF one call] k(2,3,4)
    by (simp add: broadcast_eq)
qed

section \<open>The task handed to the provider\<close>

lemma fillEnv_lookup:
  "fillEnv kvs env n =
     (case map_of (map (\<lambda>kv. (EnvVar_Name kv, EnvVar_Value kv)) (rev kvs)) n of
        None \<Rightarrow> env n
      | Some v \<Rightarrow> Some (if n = ''SPARK_LOCAL_DIRS'' then ''/tmp'' else v))"
  by (induction kvs arbitrary: env) (auto simp: map_add_def split: option.splits)

lemma createPod_submitted:
  "length (Containers (Pod_Spec pod)) = 1 \<Longrightarrow>
   submitted (snd (snd (createPod pod k w))) =
     submitted w @ [podTask pod (Containers (Pod_Spec pod) ! 0)]"
  by (simp add: createPod_def Let_def split: option.splits sum.splits prod.splits bool.splits)

text \<open>
  Claim C8. For a pod with one container, all that \<^verbatim>\<open>createPod\<close> does with the provider
  is one call of \<^verbatim>\<open>CreateTask\<close>, and the task it hands over is this one: its name is the
  pod's, its image and arguments are the container's, and its environment has exactly
  the names of the container's variables, each mapped to the value submitted with it
  (that of its last entry, should the list repeat a name), except \<open>SPARK_LOCAL_DIRS\<close>,
  which is mapped to \<open>/tmp\<close> whatever was submitted. The rest of \<^verbatim>\<open>createPod\<close> follows from
  what the provider answers to that call, for every provider and backend.
\<close>

theorem createPod_task_env:
  assumes "Containers (Pod_Spec pod) = [cc]"
    and "t = \<lparr>Task_Name = Meta_Name (Pod_ObjectMeta pod),
               Task_Image = Container_Image cc,
               Task_Args = Container_Args cc,
               Task_Env = (\<lambda>n.
                 case map_of (map (\<lambda>kv. (EnvVar_Name kv, EnvVar_Value kv))
                                (rev (Container_Env cc))) n of
                   None \<Rightarrow> None
                 | Some v \<Rightarrow> Some (if n = ''SPARK_LOCAL_DIRS'' then ''/tmp'' else v))\<rparr>"
  shows "createPod pod k w =
     (case CreateTask (provider k) t (backend w) of
        None \<Rightarrow>
          (NoReturn, k\<lparr>resourceVersion := resourceVersion k + 1\<rparr>,
           w\<lparr>submitted := submitted w @ [t]\<rparr>)
      | Some (Inl err, b) \<Rightarrow>
          (Returned (Some err), k\<lparr>resourceVersion := resourceVersion k + 1\<rparr>,
           w\<lparr>submitted := submitted w @ [t], backend := b\<rparr>)
      | Some (Inr h, b) \<Rightarrow>
          (if list_all (\<lambda>c. length (buf c) < cap c) (updateCh k) then Returned None
           else BlockedOnSend,
           k\<lparr>resourceVersion := resourceVersion k + 1,
             handles := handles k @ [h\<lparr>Handle_Name := Meta_Name (Pod_ObjectMeta pod)\<rparr>],
             pods := pods k @ [pod\<lparr>Pod_Status := (Pod_Status pod)\<lparr>Phase := PodRunning\<rparr>\<rparr>],
             updateCh :=
               fst (broadcast \<lparr>Event_Type = ''ADDED'',
                      Event_Object = pod\<lparr>Pod_Status := (Pod_Status pod)\<lparr>Phase := PodRunning\<rparr>,
                         Pod_ObjectMeta := (Pod_ObjectMeta pod)\<lparr>ResourceVersion :=
                           Sprintf_d (resourceVersion k + 1)\<rparr>\<rparr>\<rparr> (updateCh k))\<rparr>,
           w\<lparr>backend := b,
             submitted := submitted w @ [t],
             slog := slog w @ [Info ''task created''
                       [(''name'', Handle_Name h), (''id'', Handle_Id h)]]\<rparr>))"
proof -
  have one: "length (Containers (Pod_Spec pod)) = 1" and hd: "Containers (Pod_Spec pod) ! 0 = cc"
    using assms(1) by simp_all
  have t: "podTask pod (Containers (Pod_Spec pod) ! 0) = t"
    unfolding hd assms(2) podTask_def by (simp add: fun_eq_iff fillEnv_lookup)
  show ?thesis
  proof (cases "CreateTask (provider k) t (backend w)")
    case None
    with one t show ?thesis by (simp add: createPod_def Let_def)
  next
    case (Some r)
    obtain res b where r: "r = (res, b)" by (cases r)
    show ?thesis
    proof (cases res)
      case (Inl err)
      with Some r one t show ?thesis by (simp add: createPod_def Let_def)
    next
      case (Inr h)
      with Some r t have "CreateTask (provider k) (podTask pod (Containers (Pod_Spec pod) ! 0))
          (backend w) = Some (Inr h, b)" by simp
      from createPod_success [OF one this] Some r Inr t show ?thesis by simp
    qed
  qed
qed

text \<open>The theorem at the example pod, which submits \<open>SPARK_LOCAL_DIRS=/var/data\<close> and
  \<open>SPARK_USER=spark\<close>, on the provider that keeps what it was handed: it was handed one
  task, with \<open>/tmp\<close> for \<open>SPARK_LOCAL_DIRS\<close>, the submitted value for \<open>SPARK_USER\<close> and no
  other variable.\<close>

theorem createPod_task_env_witness:
  "fst (createPod (exPod ''exec-1'' [exContainer]) spyK8S spyWorld) =
     Returned (Some (External ''refused''))
   \<and> map (\<lambda>t. (Task_Name t, Task_Env t ''SPARK_LOCAL_DIRS'', Task_Env t ''SPARK_USER'',
               Task_Env t ''HOME''))
       (backend (snd (snd (createPod (exPod ''exec-1'' [exContainer]) spyK8S spyWorld)))) =
     [(''exec-1'', Some ''/tmp'', Some ''spark'', None)]"
proof -
  have c: "Containers (Pod_Spec (exPod ''exec-1'' [exContainer])) = [exContainer]"
    by (simp add: exPod_def)
  from createPod_task_env [OF c refl, of spyK8S spyWorld]
  show ?thesis
    by (simp add: spyK8S_def spyWorld_def spyProvider_def exContainer_def exPod_def)
qed

section \<open>Resource versions over a sequence of creations\<close>

lemma createPod_Returned_Some:
  assumes "createPod pod k w = (Returned (Some e), k', w')"
  shows "k' = k\<lparr>resourceVersion := resourceVersion k + 1\<rparr>"
  using assms
  by (auto simp add: createPod_def Let_def addHandle_def broadcast_eq
      split: bool.splits if_splits option.splits sum.splits prod.splits)

lemma createPod_Returned_None_state:
  assumes "createPod pod k w = (Returned None, k', w')"
  shows "resourceVersion k' = resourceVersion k + 1
       \<and> pods k' = pods k @ [pod\<lparr>Pod_Status := (Pod_Status pod)\<lparr>Phase := PodRunning\<rparr>\<rparr>]
       \<and> updateCh k' = map (\<lambda>c. c\<lparr>buf := buf c @ [added pod (resourceVersion k + 1)]\<rparr>) (updateCh k)"
proof -
  from createPod_Returned_None [OF assms] obtain h b where
    one: "length (Containers (Pod_Spec pod)) = 1"
    and room: "list_all (\<lambda>c. length (buf c) < cap c) (updateCh k)"
    and call: "CreateTask (provider k) (podTask pod (Containers (Pod_Spec pod) ! 0)) (backend w) =
                 Some (Inr h, b)"
    by blast
  show ?thesis
    using assms createPod_success [OF one call] room
    by (auto simp: broadcast_eq takeWhile_all added_def)
qed

lemma createPods_run:
  assumes "createPods ps k w = (outs, k', w')"
    and "list_all (\<lambda>out. \<exists>r. out = Returned r) outs"
  shows "length outs = length ps
       \<and> resourceVersion k' = resourceVersion k + of_nat (length ps)
       \<and> pods k' = pods k @ map (\<lambda>(p, out). p\<lparr>Pod_Status := (Pod_Status p)\<lparr>Phase := PodRunning\<rparr>\<rparr>)
                              (filter (\<lambda>(p, out). out = Returned None) (zip ps outs))
       \<and> updateCh k' = map (\<lambda>c. c\<lparr>buf := buf c @ events_from (resourceVersion k) (zip ps outs)\<rparr>) (updateCh k)"
  using assms
proof (induction ps arbitrary: k w outs k' w')
  case Nil
  then show ?case by (simp add: map_idI)
next
  case (Cons p ps)
  obtain out1 k1 w1 where s: "createPod p k w = (out1, k1, w1)"
    by (cases "createPod p k w")
  show ?case
  proof (cases out1)
    case (Returned r)
    obtain outs2 k2 w2 where t: "createPods ps k1 w1 = (outs2, k2, w2)"
      by (cases "createPods ps k1 w1")
    from Cons.prems s Returned t have o: "outs = Returned r # outs2" "k' = k2" "w' = w2"
      by auto
    with Cons.prems have "list_all (\<lambda>out. \<exists>r. out = Returned r) outs2" by simp
    note ih = Cons.IH [OF t this]
    show ?thesis
    proof (cases r)
      case None
      with s Returned have "createPod p k w = (Returned None, k1, w1)" by simp
      from createPod_Returned_None_state [OF this] ih o None
      show ?thesis by (simp add: o comp_def add.assoc add.commute)
    next
      case (Some e)
      with s Returned have "createPod p k w = (Returned (Some e), k1, w1)" by simp
      from createPod_Returned_Some [OF this] ih o Some
      show ?thesis by (simp add: add.assoc add.commute)
    qed
  next
    case (Panicked x2)
    with Cons.prems s show ?thesis by auto
  next
    case BlockedOnSend
    with Cons.prems s show ?thesis by auto
  next
    case NoReturn
    with Cons.prems s show ?thesis by auto
  qed
qed

lemma events_from_enumerate:
  "events_from (rv + of_nat n) xs =
     [added p (rv + of_nat j). (j, p, out) \<leftarrow> enumerate (Suc n) xs, out = Returned None]"
proof (induction xs arbitrary: n)
  case Nil
  then show ?case by simp
next
  case (Cons x xs)
  obtain p out where x: "x = (p, out)" by (cases x)
  have e: "rv + of_nat n + 1 = rv + of_nat (Suc n)" by simp
  show ?case
    using Cons.IH [of "Suc n"] unfolding x
    by (simp del: of_nat_Suc add: e)
qed

lemma events_from_enumerate1:
  "events_from rv xs =
     [added p (rv + of_nat j). (j, p, out) \<leftarrow> enumerate 1 xs, out = Returned None]"
  using events_from_enumerate [of rv 0 xs] by simp

lemma digit_inj: "d < 10 \<Longrightarrow> d' < 10 \<Longrightarrow> digit d = digit d' \<Longrightarrow> d = d'"
  unfolding digit_def
  by (subst (asm) nth_eq_iff_index_eq) simp_all

lemma FormatUint_nonempty: "FormatUint n \<noteq> []"
  by (subst FormatUint.simps) simp

lemma FormatUint_inj: "FormatUint n = FormatUint m \<Longrightarrow> n = m"
proof (induction n arbitrary: m rule: FormatUint.induct)
  case (1 n)
  show ?case
  proof (cases "n < 10")
    case True
    show ?thesis
    proof (cases "m < 10")
      case True
      with \<open>n < 10\<close> "1.prems" show ?thesis
        by (simp add: FormatUint.simps [of n] FormatUint.simps [of m] digit_inj)
    next
      case False
      with \<open>n < 10\<close> "1.prems" FormatUint_nonempty [of "m div 10"] show ?thesis
        by (simp add: FormatUint.simps [of n] FormatUint.simps [of m])
    qed
  next
    case False
    show ?thesis
    proof (cases "m < 10")
      case True
      with \<open>\<not> n < 10\<close> "1.prems" FormatUint_nonempty [of "n div 10"] show ?thesis
        by (simp add: FormatUint.simps [of n] FormatUint.simps [of m])
    next
      case mf: False
      with False "1.prems" have a: "FormatUint (n div 10) = FormatUint (m div 10)"
        and b: "digit (n mod 10) = digit (m mod 10)"
        by (simp_all add: FormatUint.simps [of n] FormatUint.simps [of m])
      from "1.IH" [OF False a] have "n div 10 = m div 10" .
      moreover from b have "n mod 10 = m mod 10" by (simp add: digit_inj)
      ultimately show ?thesis by (metis div_mult_mod_eq)
    qed
  qed
qed

lemma Sprintf_d_inj: "Sprintf_d a = Sprintf_d b \<Longrightarrow> a = b"
  by (auto simp: Sprintf_d_def word_unat_eq_iff dest: FormatUint_inj)

lemma concat_map_if: "concat (map (\<lambda>x. if P x then [f x] else []) xs) = map f (filter P xs)"
  by (induction xs) auto

lemma of_nat_64_inj:
  assumes "of_nat i = (of_nat j :: 64 word)" and "i < 2 ^ 64" and "j < 2 ^ 64"
  shows "i = j"
proof -
  have "unat (of_nat i :: 64 word) = i" "unat (of_nat j :: 64 word) = j"
    using assms(2,3) by (simp_all add: unat_of_nat)
  with assms(1) show ?thesis by metis
qed

lemma versions_distinct:
  assumes "length outs < 2 ^ 64"
  shows "distinct [Sprintf_d (rv + of_nat j). (j, out) \<leftarrow> enumerate 1 outs, out = Returned None]"
proof -
  let ?f = "\<lambda>x :: nat \<times> outcome. Sprintf_d (rv + of_nat (fst x))"
  let ?P = "\<lambda>x :: nat \<times> outcome. snd x = Returned None"
  have eq: "[Sprintf_d (rv + of_nat j). (j, out) \<leftarrow> enumerate 1 outs, out = Returned None]
         = map ?f (filter ?P (enumerate 1 outs))"
    using concat_map_if [of ?P ?f "enumerate 1 outs"] by (simp add: case_prod_unfold)
  have "inj_on ?f (set (enumerate 1 outs))"
  proof (rule inj_onI)
    fix x y assume x: "x \<in> set (enumerate 1 outs)" and y: "y \<in> set (enumerate 1 outs)"
      and e: "?f x = ?f y"
    from x y assms have b: "fst x < 2 ^ 64" "fst y < 2 ^ 64"
      by (auto simp: in_set_enumerate_eq)
    from e have "(of_nat (fst x) :: 64 word) = of_nat (fst y)"
      by (auto dest: Sprintf_d_inj)
    from this b have "fst x = fst y" by (rule of_nat_64_inj)
    with x y show "x = y"
      by (auto simp: in_set_enumerate_eq prod_eq_iff)
  qed
  then have "inj_on ?f (set (filter ?P (enumerate 1 outs)))"
    by (rule inj_on_subset) auto
  then show ?thesis
    unfolding eq by (simp add: distinct_map)
qed

lemma versions_all_succeed:
  assumes "\<forall>out \<in> set outs. out = Returned None"
  shows "[Sprintf_d (rv + of_nat j). (j, out) \<leftarrow> enumerate 1 outs, out = Returned None]
       = map (\<lambda>j. Sprintf_d (rv + of_nat j)) [1..<Suc (length outs)]"
proof -
  let ?f = "\<lambda>x :: nat \<times> outcome. Sprintf_d (rv + of_nat (fst x))"
  let ?P = "\<lambda>x :: nat \<times> outcome. snd x = Returned None"
  have "[Sprintf_d (rv + of_nat j). (j, out) \<leftarrow> enumerate 1 outs, out = Returned None]
         = map ?f (filter ?P (enumerate 1 outs))"
    using concat_map_if [of ?P ?f "enumerate 1 outs"] by (simp add: case_prod_unfold)
  also have "filter ?P (enumerate 1 outs) = enumerate 1 outs"
    using assms by (auto simp: filter_id_conv in_set_enumerate_eq)
  also have "map ?f (enumerate 1 outs) = map (\<lambda>j. Sprintf_d (rv + of_nat j)) (map fst (enumerate 1 outs))"
    by (simp only: map_map comp_def)
  also have "map fst (enumerate 1 outs) = [1..<Suc (length outs)]"
    by (simp del: upt_Suc)
  finally show ?thesis .
qed

text \<open>
  Claim C2, as the code has it. Take a sequence of \<^verbatim>\<open>createPod\<close> attempts that all return,
  started with the counter at \<open>r\<close> (0 in the state \<^verbatim>\<open>New\<close> leaves); count the attempts
  from 1, those that fail at the provider included. Every attempt advances the counter
  by one. The \<open>j\<close>-th attempt, when it succeeds, appends to every subscriber's queue an
  \<open>ADDED\<close> event whose object carries the resource version \<open>r + j\<close> (a 64-bit unsigned
  value, in decimal), so the events stand in the queues in creation order; below
  \<open>2^64\<close> attempts no version is given twice. The version of a creation is thus \<open>r\<close> plus
  its position among all attempts, the failed ones counted; when no attempt fails, the
  \<open>N\<close> creations carry \<open>r + 1, ..., r + N\<close> in this order. The descriptor appended to the
  pod list carries the phase \<open>Running\<close> and the resource version the client submitted:
  the assigned version is written to the event's copy only.
\<close>

theorem createPods_resource_versions:
  assumes "createPods ps k w = (outs, k', w')"
    and "\<forall>out \<in> set outs. \<exists>r. out = Returned r"
  shows "resourceVersion k' = resourceVersion k + of_nat (length ps)
       \<and> updateCh k' =
           map (\<lambda>c. c\<lparr>buf := buf c @
                  [\<lparr>Event_Type = ''ADDED'',
                    Event_Object = p\<lparr>Pod_Status := (Pod_Status p)\<lparr>Phase := PodRunning\<rparr>,
                      Pod_ObjectMeta := (Pod_ObjectMeta p)\<lparr>ResourceVersion :=
                        Sprintf_d (resourceVersion k + of_nat j)\<rparr>\<rparr>\<rparr>.
                   (j, p, out) \<leftarrow> enumerate 1 (zip ps outs), out = Returned None]\<rparr>)
             (updateCh k)
       \<and> pods k' = pods k @
           [p\<lparr>Pod_Status := (Pod_Status p)\<lparr>Phase := PodRunning\<rparr>\<rparr>.
            (p, out) \<leftarrow> zip ps outs, out = Returned None]
       \<and> (length ps < 2 ^ 64 \<longrightarrow>
            distinct [Sprintf_d (resourceVersion k + of_nat j).
                      (j, out) \<leftarrow> enumerate 1 outs, out = Returned None])
       \<and> ((\<forall>out \<in> set outs. out = Returned None) \<longrightarrow>
            [Sprintf_d (resourceVersion k + of_nat j).
             (j, out) \<leftarrow> enumerate 1 outs, out = Returned None] =
            map (\<lambda>j. Sprintf_d (resourceVersion k + of_nat j)) [1..<Suc (length ps)])"
proof -
  have all: "list_all (\<lambda>out. \<exists>r. out = Returned r) outs"
    using assms(2) by (simp add: list_all_iff)
  note run = createPods_run [OF assms(1) all]
  have p: "[p\<lparr>Pod_Status := (Pod_Status p)\<lparr>Phase := PodRunning\<rparr>\<rparr>.
            (p, out) \<leftarrow> zip ps outs, out = Returned None]
      = map (\<lambda>(p, out). p\<lparr>Pod_Status := (Pod_Status p)\<lparr>Phase := PodRunning\<rparr>\<rparr>)
          (filter (\<lambda>(p, out). out = Returned None) (zip ps outs))"
    using concat_map_if [of "\<lambda>x. snd x = Returned None"
        "\<lambda>x. (fst x)\<lparr>Pod_Status := (Pod_Status (fst x))\<lparr>Phase := PodRunning\<rparr>\<rparr>" "zip ps outs"]
    by (simp add: case_prod_unfold)
  from run have len: "length outs = length ps" by simp
  have v: "(\<forall>out \<in> set outs. out = Returned None) \<longrightarrow>
            [Sprintf_d (resourceVersion k + of_nat j).
             (j, out) \<leftarrow> enumerate 1 outs, out = Returned None] =
            map (\<lambda>j. Sprintf_d (resourceVersion k + of_nat j)) [1..<Suc (length ps)]"
    using versions_all_succeed [of outs "resourceVersion k"] len by simp
  have d: "length ps < 2 ^ 64 \<longrightarrow>
            distinct [Sprintf_d (resourceVersion k + of_nat j).
                      (j, out) \<leftarrow> enumerate 1 outs, out = Returned None]"
    using versions_distinct [of outs "resourceVersion k"] len by simp
  have "resourceVersion k' = resourceVersion k + of_nat (length ps)
       \<and> updateCh k' =
           map (\<lambda>c. c\<lparr>buf := buf c @
                  [\<lparr>Event_Type = ''ADDED'',
                    Event_Object = p\<lparr>Pod_Status := (Pod_Status p)\<lparr>Phase := PodRunning\<rparr>,
                      Pod_ObjectMeta := (Pod_ObjectMeta p)\<lparr>ResourceVersion :=
                        Sprintf_d (resourceVersion k + of_nat j)\<rparr>\<rparr>\<rparr>.
                   (j, p, out) \<leftarrow> enumerate 1 (zip ps outs), out = Returned None]\<rparr>)
             (updateCh k)
       \<and> pods k' = pods k @
           [p\<lparr>Pod_Status := (Pod_Status p)\<lparr>Phase := PodRunning\<rparr>\<rparr>.
            (p, out) \<leftarrow> zip ps outs, out = Returned None]"
    using run by (simp add: p events_from_enumerate1 [unfolded added_def])
  with d v show ?thesis by blast
qed

lemma Sprintf_d_2: "Sprintf_d 2 = ''2''"
  by (simp add: Sprintf_d_def FormatUint.simps digit_def)

lemma ex_run:
  "createPods [exPod ''bad'' [exContainer], exPod ''exec-1'' [exContainer]]
     (snd (getPods ''true'' (exK8S (exConfig False True [])))) exWorld =
   ([Returned (Some (External ''launch failed'')), Returned None],
    (exK8S (exConfig False True []))\<lparr>
       pods := [exPod ''exec-1'' [exContainer]\<lparr>Pod_Status := \<lparr>Phase = ''Running''\<rparr>\<rparr>],
       handles := [\<lparr>Handle_Name = ''exec-1'', Handle_Id = ''exec-1''\<rparr>],
       updateCh := [\<lparr>cap = 1000, buf = [\<lparr>Event_Type = ''ADDED'',
          Event_Object = exPod ''exec-1'' [exContainer]\<lparr>Pod_Status := \<lparr>Phase = ''Running''\<rparr>,
            Pod_ObjectMeta := \<lparr>Meta_Name = ''exec-1'', Meta_Namespace = ''default'', Meta_Labels = [],
                        ResourceVersion = ''2''\<rparr>\<rparr>\<rparr>]\<rparr>],
       resourceVersion := 2\<rparr>,
    exWorld\<lparr>backend := 2,
       submitted := [podTask (exPod ''bad'' [exContainer]) exContainer,
                     podTask (exPod ''exec-1'' [exContainer]) exContainer],
       slog := [Info ''task created'' [(''name'', []), (''id'', ''exec-1'')]]\<rparr>)"
  by (simp add: createPod_def getPods_def exK8S_def exPod_def exProvider_def podTask_def
      exWorld_def Let_def chan_send_def addHandle_def PodRunning_def Sprintf_d_2)

text \<open>Against C2 as stated: one watcher, a first attempt that fails at the provider and a
  second that succeeds. The one completed creation is announced with resource version 2,
  not 1, and the descriptor in the pod list carries the empty resource version that was
  submitted.\<close>

theorem createPods_resource_versions_counterexample:
  "fst (createPods [exPod ''bad'' [exContainer], exPod ''exec-1'' [exContainer]]
          (snd (getPods ''true'' (exK8S (exConfig False True [])))) exWorld) =
     [Returned (Some (External ''launch failed'')), Returned None]
   \<and> map (ResourceVersion \<circ> Pod_ObjectMeta \<circ> Event_Object)
       (buf (updateCh (fst (snd (createPods [exPod ''bad'' [exContainer], exPod ''exec-1'' [exContainer]]
          (snd (getPods ''true'' (exK8S (exConfig False True [])))) exWorld))) ! 0)) = [''2'']
   \<and> map (ResourceVersion \<circ> Pod_ObjectMeta)
       (pods (fst (snd (createPods [exPod ''bad'' [exContainer], exPod ''exec-1'' [exContainer]]
          (snd (getPods ''true'' (exK8S (exConfig False True [])))) exWorld)))) = [[]]"
  unfolding ex_run by (simp add: exK8S_def exPod_def)

lemma ex_run_ok:
  "fst (createPods [exPod ''exec-1'' [exContainer], exPod ''exec-2'' [exContainer]]
     (snd (getPods ''true'' (exK8S (exConfig False True [])))) exWorld) =
   [Returned None, Returned None]"
  by (simp add: createPod_def getPods_def exK8S_def exPod_def exProvider_def podTask_def
      exWorld_def Let_def chan_send_def addHandle_def PodRunning_def)

text \<open>The theorem at the same run, and at a run of two creations that both succeed.\<close>

theorem createPods_resource_versions_witness:
  "resourceVersion (fst (snd (createPods [exPod ''bad'' [exContainer], exPod ''exec-1'' [exContainer]]
          (snd (getPods ''true'' (exK8S (exConfig False True [])))) exWorld))) = 2
   \<and> map (map (ResourceVersion \<circ> Pod_ObjectMeta \<circ> Event_Object) \<circ> buf)
       (updateCh (fst (snd (createPods [exPod ''bad'' [exContainer], exPod ''exec-1'' [exContainer]]
          (snd (getPods ''true'' (exK8S (exConfig False True [])))) exWorld)))) = [[''2'']]
   \<and> map (Meta_Name \<circ> Pod_ObjectMeta)
       (pods (fst (snd (createPods [exPod ''bad'' [exContainer], exPod ''exec-1'' [exContainer]]
          (snd (getPods ''true'' (exK8S (exConfig False True [])))) exWorld)))) = [''exec-1'']
   \<and> map (map (ResourceVersion \<circ> Pod_ObjectMeta \<circ> Event_Object) \<circ> buf)
       (updateCh (fst (snd (createPods [exPod ''exec-1'' [exContainer], exPod ''exec-2'' [exContainer]]
          (snd (getPods ''true'' (exK8S (exConfig False True [])))) exWorld)))) = [[''1'', ''2'']]"
proof -
  let ?k = "snd (getPods ''true'' (exK8S (exConfig False True [])))"
  let ?R = "createPods [exPod ''bad'' [exContainer], exPod ''exec-1'' [exContainer]] ?k exWorld"
  let ?S = "createPods [exPod ''exec-1'' [exContainer], exPod ''exec-2'' [exContainer]] ?k exWorld"
  have outs: "fst ?R = [Returned (Some (External ''launch failed'')), Returned None]"
    unfolding ex_run by simp
  then have r: "?R = ([Returned (Some (External ''launch failed'')), Returned None],
      fst (snd ?R), snd (snd ?R))"
    by (metis prod.collapse)
  have all: "\<forall>out \<in> set [Returned (Some (External ''launch failed'')), Returned None].
      \<exists>r. out = Returned r"
    by simp
  have s: "?S = ([Returned None, Returned None], fst (snd ?S), snd (snd ?S))"
    using ex_run_ok by (metis prod.collapse)
  have all2: "\<forall>out \<in> set [Returned None, Returned None]. \<exists>r. out = Returned r"
    by simp
  from createPods_resource_versions [OF r all] createPods_resource_versions [OF s all2]
  show ?thesis
    by (simp add: getPods_def exK8S_def exPod_def Sprintf_d_1 Sprintf_d_2)
qed

section \<open>Configuration, construction and the driver\<close>

text \<open>
  Claim C9. With neither the ECS flag nor the Docker flag set, \<^verbatim>\<open>New\<close> raises no
  configuration error of its own: it runs the Docker provider's constructor and its
  result is that constructor's, the control plane built on the Docker provider or the
  constructor's error.
\<close>

theorem New_default_docker:
  assumes "\<not> EcsEnabled cfg" and "\<not> DockerEnabled cfg"
  shows "New cs cfg w =
     (case newDockerProvider cs (backend w) of
        (Inl err, b) \<Rightarrow> (Inl err, w\<lparr>backend := b\<rparr>)
      | (Inr p, b) \<Rightarrow>
          (Inr \<lparr>config = cfg, pods = [], handles = [], updateCh = [], provider = p,
                resourceVersion = 0\<rparr>,
           w\<lparr>backend := b\<rparr>))"
  using assms by (simp add: New_def)

text \<open>The theorem at a configuration without flags: the control plane has the provider
  of the Docker constructor, not the one of the ECS constructor.\<close>

theorem New_default_docker_witness:
  "New exConstructors (exConfig False False ''10.0.0.1'') exWorld =
     (Inr (exK8S (exConfig False False ''10.0.0.1'')), exWorld)"
proof -
  have "\<not> EcsEnabled (exConfig False False ''10.0.0.1'')"
    and "\<not> DockerEnabled (exConfig False False ''10.0.0.1'')"
    by (simp_all add: exConfig_def)
  from New_default_docker [OF this, of exConstructors exWorld]
  show ?thesis by (simp add: exConstructors_def exK8S_def exWorld_def)
qed

lemma New_Inr:
  "New cs cfg w0 = (Inr k, w) \<Longrightarrow>
     config k = cfg \<and> handles k = [] \<and> listening w = listening w0 \<and> stdout w = stdout w0
     \<and> submitted w = submitted w0 \<and> slog w = slog w0 \<and> pending w = pending w0"
  by (auto simp: New_def split: if_splits prod.splits sum.splits)

lemma GatherLogs_no_handles:
  "handles k = [] \<Longrightarrow>
     \<exists>r w'. GatherLogs sys k w = (Returned r, w') \<and> listening w' = listening w
       \<and> stdout w' = stdout w \<and> submitted w' = submitted w \<and> pending w' = pending w"
  by (auto simp: GatherLogs_def Let_def split: prod.splits option.splits)

text \<open>The server goroutine and the main line act on different parts of the outside state:
  it makes no difference whether the goroutine runs before or after \<^verbatim>\<open>deploy\<close>, or before
  or after \<^verbatim>\<open>GatherLogs\<close>.\<close>

lemma deploy_serve:
  "deploy k (serve srv w) = (case deploy k w of (out, k', w') \<Rightarrow> (out, k', serve srv w'))"
  by (cases "pending w")
    (auto simp: deploy_def serve_def Let_def addHandle_def
      split: option.splits sum.splits prod.splits)

lemma GatherLogs_serve:
  "GatherLogs sys k (serve srv w) =
     (case GatherLogs sys k w of (out, w') \<Rightarrow> (out, serve srv w'))"
  by (cases "pending w")
    (auto simp: GatherLogs_def serve_def Let_def split: option.splits prod.splits)

text \<open>\<^verbatim>\<open>main\<close> from a configuration without an address and with Docker not enabled, once
  \<^verbatim>\<open>New\<close> has made the control plane.\<close>

lemma main_missing_address:
  assumes "\<not> DockerEnabled cfg" and "ControlPlaneAddr cfg = []"
    and "New cs cfg w0 = (Inr k0, w1)"
  shows "\<exists>w4. main cs sys srv sched cfg w0 = (Exit 0, tick srv sched AfterGatherLogs w4)
      \<and> listening w4 = listening
           (tick srv sched AfterReport
              ((tick srv sched AfterRun
                  (tick srv sched BeforeDeploy (w1\<lparr>pending := pending w1 @ [''0.0.0.0:1323'']\<rparr>)))
               \<lparr>stdout := stdout (tick srv sched AfterRun
                  (tick srv sched BeforeDeploy (w1\<lparr>pending := pending w1 @ [''0.0.0.0:1323'']\<rparr>)))
                  @ [''Error running sparkanywhere: control plane public address is required''
                     @ [CHR 0x0A]]\<rparr>))
      \<and> stdout w4 = stdout
           (tick srv sched AfterReport
              ((tick srv sched AfterRun
                  (tick srv sched BeforeDeploy (w1\<lparr>pending := pending w1 @ [''0.0.0.0:1323'']\<rparr>)))
               \<lparr>stdout := stdout (tick srv sched AfterRun
                  (tick srv sched BeforeDeploy (w1\<lparr>pending := pending w1 @ [''0.0.0.0:1323'']\<rparr>)))
                  @ [''Error running sparkanywhere: control plane public address is required''
                     @ [CHR 0x0A]]\<rparr>))
      \<and> pending w4 = pending
           (tick srv sched AfterReport
              ((tick srv sched AfterRun
                  (tick srv sched BeforeDeploy (w1\<lparr>pending := pending w1 @ [''0.0.0.0:1323'']\<rparr>)))
               \<lparr>stdout := stdout (tick srv sched AfterRun
                  (tick srv sched BeforeDeploy (w1\<lparr>pending := pending w1 @ [''0.0.0.0:1323'']\<rparr>)))
                  @ [''Error running sparkanywhere: control plane public address is required''
                     @ [CHR 0x0A]]\<rparr>))
      \<and> submitted w4 = submitted w1"
proof -
  let ?wr = "tick srv sched BeforeDeploy (w1\<lparr>pending := pending w1 @ [''0.0.0.0:1323'']\<rparr>)"
  let ?w3 = "tick srv sched AfterReport
              ((tick srv sched AfterRun ?wr)
               \<lparr>stdout := stdout (tick srv sched AfterRun ?wr)
                  @ [''Error running sparkanywhere: control plane public address is required''
                     @ [CHR 0x0A]]\<rparr>)"
  note k0 = New_Inr [OF assms(3)]
  with assms have r: "Run srv sched k0 w1 =
      (Returned (Some (Errorf ''control plane public address is required'')), k0, ?wr)"
    by (simp add: Run_def deploy_def initServer_def)
  from k0 GatherLogs_no_handles [of k0 sys ?w3] obtain r' w4 where
    g: "GatherLogs sys k0 ?w3 = (Returned r', w4)" "listening w4 = listening ?w3"
       "stdout w4 = stdout ?w3" "submitted w4 = submitted ?w3" "pending w4 = pending ?w3"
    by blast
  have "main cs sys srv sched cfg w0 = (Exit 0, tick srv sched AfterGatherLogs w4)"
    using assms(3) r g(1) by (simp add: main_def Let_def)
  moreover have "submitted ?w3 = submitted w1"
    by (simp add: tick_def serve_def split: list.splits)
  ultimately show ?thesis using g by auto
qed

text \<open>
  Claim C7, as the code has it. With both providers enabled, \<^verbatim>\<open>New\<close> returns the error
  \<open>only one provider can be enabled\<close> and does nothing else (no provider is constructed,
  no server goroutine is started), and \<^verbatim>\<open>main\<close> prints it and exits with status 1: this
  error is fatal before any server exists. The missing control-plane address is found
  by \<^verbatim>\<open>deploy\<close>, which \<^verbatim>\<open>Run\<close> calls after \<^verbatim>\<open>initServer\<close> has started the server goroutine: with
  Docker not enabled and an empty address, \<^verbatim>\<open>Run\<close> returns the error
  \<open>control plane public address is required\<close> with that goroutine started, and no task
  has been handed to the provider. The goroutine runs concurrently: when \<^verbatim>\<open>Run\<close> returns
  the port is open only in a run in which the goroutine was scheduled before. \<^verbatim>\<open>main\<close>
  then prints the error, gathers the logs (there are none) and ends with exit status
  0; in every run in which the goroutine gets to run before that exit and can open the
  port, the server has been listening, and its start line stands on standard output
  before or after the error line, as scheduled.
\<close>

theorem configuration_errors:
  "(EcsEnabled cfg \<and> DockerEnabled cfg \<longrightarrow>
      New cs cfg w0 = (Inl (Errorf ''only one provider can be enabled''), w0)
    \<and> main cs sys srv sched cfg w0 =
        (Exit 1, w0\<lparr>stdout := stdout w0 @
           [''Error creating sparkanywhere: only one provider can be enabled'' @ [CHR 0x0A]]\<rparr>))
 \<and> (\<not> DockerEnabled (config k) \<and> ControlPlaneAddr (config k) = [] \<longrightarrow>
      Run srv sched k w =
        (Returned (Some (Errorf ''control plane public address is required'')), k,
         if sched = BeforeDeploy then serve srv (w\<lparr>pending := pending w @ [''0.0.0.0:1323'']\<rparr>)
         else w\<lparr>pending := pending w @ [''0.0.0.0:1323'']\<rparr>))
 \<and> (\<not> DockerEnabled cfg2 \<and> ControlPlaneAddr cfg2 = [] \<and> New cs cfg2 w0 = (Inr k0, w1)
      \<and> pending w0 = [] \<longrightarrow>
      fst (main cs sys srv sched cfg2 w0) = Exit 0
    \<and> submitted (snd (main cs sys srv sched cfg2 w0)) = submitted w0
    \<and> pending (snd (main cs sys srv sched cfg2 w0)) =
        (if sched = NotInTime then [''0.0.0.0:1323''] else [])
    \<and> listening (snd (main cs sys srv sched cfg2 w0)) =
        listening w0 @
        (if sched \<noteq> NotInTime \<and> opens srv ''0.0.0.0:1323'' then [''0.0.0.0:1323''] else [])
    \<and> stdout (snd (main cs sys srv sched cfg2 w0)) =
        stdout w0 @
        (if sched = BeforeDeploy \<or> sched = AfterRun
         then prints srv ''0.0.0.0:1323'' @
           [''Error running sparkanywhere: control plane public address is required'' @ [CHR 0x0A]]
         else if sched = NotInTime
         then [''Error running sparkanywhere: control plane public address is required'' @ [CHR 0x0A]]
         else [''Error running sparkanywhere: control plane public address is required'' @ [CHR 0x0A]]
           @ prints srv ''0.0.0.0:1323''))"
proof (intro conjI impI)
  assume "EcsEnabled cfg \<and> DockerEnabled cfg"
  then show n: "New cs cfg w0 = (Inl (Errorf ''only one provider can be enabled''), w0)"
    by (simp add: New_def)
  then show "main cs sys srv sched cfg w0 =
        (Exit 1, w0\<lparr>stdout := stdout w0 @
           [''Error creating sparkanywhere: only one provider can be enabled'' @ [CHR 0x0A]]\<rparr>)"
    by (simp add: main_def)
next
  assume "\<not> DockerEnabled (config k) \<and> ControlPlaneAddr (config k) = []"
  then show "Run srv sched k w =
        (Returned (Some (Errorf ''control plane public address is required'')), k,
         if sched = BeforeDeploy then serve srv (w\<lparr>pending := pending w @ [''0.0.0.0:1323'']\<rparr>)
         else w\<lparr>pending := pending w @ [''0.0.0.0:1323'']\<rparr>)"
    by (simp add: Run_def deploy_def initServer_def tick_def)
next
  assume a: "\<not> DockerEnabled cfg2 \<and> ControlPlaneAddr cfg2 = [] \<and> New cs cfg2 w0 = (Inr k0, w1)
      \<and> pending w0 = []"
  then have n: "New cs cfg2 w0 = (Inr k0, w1)" by simp
  note k0 = New_Inr [OF n]
  from a main_missing_address [of cfg2 cs w0 k0 w1 sys srv sched] obtain w4 where
    m: "main cs sys srv sched cfg2 w0 = (Exit 0, tick srv sched AfterGatherLogs w4)"
    and l: "listening w4 = listening
           (tick srv sched AfterReport
              ((tick srv sched AfterRun
                  (tick srv sched BeforeDeploy (w1\<lparr>pending := pending w1 @ [''0.0.0.0:1323'']\<rparr>)))
               \<lparr>stdout := stdout (tick srv sched AfterRun
                  (tick srv sched BeforeDeploy (w1\<lparr>pending := pending w1 @ [''0.0.0.0:1323'']\<rparr>)))
                  @ [''Error running sparkanywhere: control plane public address is required''
                     @ [CHR 0x0A]]\<rparr>))"
    and s: "stdout w4 = stdout
           (tick srv sched AfterReport
              ((tick srv sched AfterRun
                  (tick srv sched BeforeDeploy (w1\<lparr>pending := pending w1 @ [''0.0.0.0:1323'']\<rparr>)))
               \<lparr>stdout := stdout (tick srv sched AfterRun
                  (tick srv sched BeforeDeploy (w1\<lparr>pending := pending w1 @ [''0.0.0.0:1323'']\<rparr>)))
                  @ [''Error running sparkanywhere: control plane public address is required''
                     @ [CHR 0x0A]]\<rparr>))"
    and p: "pending w4 = pending
           (tick srv sched AfterReport
              ((tick srv sched AfterRun
                  (tick srv sched BeforeDeploy (w1\<lparr>pending := pending w1 @ [''0.0.0.0:1323'']\<rparr>)))
               \<lparr>stdout := stdout (tick srv sched AfterRun
                  (tick srv sched BeforeDeploy (w1\<lparr>pending := pending w1 @ [''0.0.0.0:1323'']\<rparr>)))
                  @ [''Error running sparkanywhere: control plane public address is required''
                     @ [CHR 0x0A]]\<rparr>))"
    and u: "submitted w4 = submitted w1"
    by blast
  have pw: "pending w1 = []" using k0 a by simp
  show "fst (main cs sys srv sched cfg2 w0) = Exit 0" using m by simp
  show "submitted (snd (main cs sys srv sched cfg2 w0)) = submitted w0"
    using m u k0 by (simp add: tick_def serve_def split: list.splits)
  show "pending (snd (main cs sys srv sched cfg2 w0)) =
        (if sched = NotInTime then [''0.0.0.0:1323''] else [])"
    using m p pw by (cases sched) (simp_all add: tick_def serve_def)
  show "listening (snd (main cs sys srv sched cfg2 w0)) =
        listening w0 @
        (if sched \<noteq> NotInTime \<and> opens srv ''0.0.0.0:1323'' then [''0.0.0.0:1323''] else [])"
    using m l p pw k0 by (cases sched) (simp_all add: tick_def serve_def)
  show "stdout (snd (main cs sys srv sched cfg2 w0)) =
        stdout w0 @
        (if sched = BeforeDeploy \<or> sched = AfterRun
         then prints srv ''0.0.0.0:1323'' @
           [''Error running sparkanywhere: control plane public address is required'' @ [CHR 0x0A]]
         else if sched = NotInTime
         then [''Error running sparkanywhere: control plane public address is required'' @ [CHR 0x0A]]
         else [''Error running sparkanywhere: control plane public address is required'' @ [CHR 0x0A]]
           @ prints srv ''0.0.0.0:1323'')"
    using m s p pw k0 by (cases sched) (simp_all add: tick_def serve_def)
qed

text \<open>The theorem at a configuration with both flags, and at an ECS configuration without
  an address and the control plane \<^verbatim>\<open>New\<close> makes of it, in the run in which the server
  goroutine gets to run after \<^verbatim>\<open>main\<close> has reported the error.\<close>

theorem configuration_errors_witness:
  "New exConstructors (exConfig True True ''10.0.0.1'') exWorld =
     (Inl (Errorf ''only one provider can be enabled''), exWorld)
 \<and> main exConstructors exOs exSrv AfterReport (exConfig True True ''10.0.0.1'') exWorld =
     (Exit 1, exWorld\<lparr>stdout :=
        [''Error creating sparkanywhere: only one provider can be enabled'' @ [CHR 0x0A]]\<rparr>)
 \<and> Run exSrv AfterReport ((exK8S (exConfig True False []))\<lparr>provider := exEcsProvider\<rparr>) exWorld =
     (Returned (Some (Errorf ''control plane public address is required'')),
      (exK8S (exConfig True False []))\<lparr>provider := exEcsProvider\<rparr>,
      exWorld\<lparr>pending := [''0.0.0.0:1323'']\<rparr>)
 \<and> fst (main exConstructors exOs exSrv AfterReport (exConfig True False []) exWorld) = Exit 0
 \<and> listening (snd (main exConstructors exOs exSrv AfterReport (exConfig True False []) exWorld)) =
     [''0.0.0.0:1323'']
 \<and> stdout (snd (main exConstructors exOs exSrv AfterReport (exConfig True False []) exWorld)) =
     [''Error running sparkanywhere: control plane public address is required'' @ [CHR 0x0A],
      [CHR 0xE2, CHR 0x87, CHR 0xA8] @ '' http server started on [::]:1323'' @ [CHR 0x0A]]"
proof -
  have n: "New exConstructors (exConfig True False []) exWorld =
      (Inr ((exK8S (exConfig True False []))\<lparr>provider := exEcsProvider\<rparr>), exWorld)"
    by (simp add: New_def exConstructors_def exConfig_def exK8S_def exWorld_def)
  from configuration_errors [where cfg = "exConfig True True ''10.0.0.1''"
      and cs = exConstructors and sys = exOs and srv = exSrv and sched = AfterReport
      and ?w0.0 = exWorld
      and k = "(exK8S (exConfig True False []))\<lparr>provider := exEcsProvider\<rparr>" and w = exWorld
      and ?cfg2.0 = "exConfig True False []"
      and ?k0.0 = "(exK8S (exConfig True False []))\<lparr>provider := exEcsProvider\<rparr>"
      and ?w1.0 = exWorld]
  show ?thesis
    unfolding n by (simp add: exConfig_def exK8S_def exWorld_def exSrv_def)
qed

text \<open>Against C7 as stated: from the ECS configuration without an address \<^verbatim>\<open>New\<close> succeeds.
  \<^verbatim>\<open>Run\<close> of the control plane it returns ends in the missing-address error when the
  server goroutine has been started. In the run in which that goroutine gets to run
  after \<^verbatim>\<open>main\<close> has reported the error, the server is listening when the process ends,
  and it ends with status 0.\<close>

theorem configuration_errors_counterexample:
  "New exConstructors (exConfig True False []) exWorld =
     (Inr ((exK8S (exConfig True False []))\<lparr>provider := exEcsProvider\<rparr>), exWorld)
 \<and> Run exSrv AfterReport ((exK8S (exConfig True False []))\<lparr>provider := exEcsProvider\<rparr>) exWorld =
     (Returned (Some (Errorf ''control plane public address is required'')),
      (exK8S (exConfig True False []))\<lparr>provider := exEcsProvider\<rparr>,
      exWorld\<lparr>pending := [''0.0.0.0:1323'']\<rparr>)
 \<and> fst (main exConstructors exOs exSrv AfterReport (exConfig True False []) exWorld) = Exit 0
 \<and> listening (snd (main exConstructors exOs exSrv AfterReport (exConfig True False [])
       exWorld)) = [''0.0.0.0:1323'']"
  by (simp add: main_def GatherLogs_def exOs_def New_def Run_def deploy_def initServer_def
      tick_def serve_def exSrv_def exConfig_def exK8S_def exWorld_def exConstructors_def)



section \<open>Waiting for a task of the managed service\<close>

lemma unmarshal_tasks_bound:
  "unmarshal_tasks vs s = (ts, s') \<Longrightarrow>
     length (heap s) \<le> length (heap s') \<and> length ts = length vs \<and>
     (\<forall>t \<in> set ts. \<forall>p. LastStatus t = Some p \<longrightarrow> p < length (heap s'))"
proof (induction vs s arbitrary: ts s' rule: unmarshal_tasks.induct)
  case (1 s)
  then show ?case by simp
next
  case (2 vs s)
  then show ?case by (auto split: prod.splits)
next
  case (3 v vs s)
  then show ?case by (fastforce simp: aws_String_def split: prod.splits)
qed

lemma DescribeTasks_bound:
  "DescribeTasks e c i s = (Inr ts, s') \<Longrightarrow>
     (\<forall>t \<in> set ts. \<forall>p. LastStatus t = Some p \<longrightarrow> p < length (heap s'))"
  by (auto simp: DescribeTasks_def split: prod.splits sum.splits dest: unmarshal_tasks_bound)

text \<open>A pointer in a decoded response is an address in use, and \<^verbatim>\<open>aws.String\<close> returns a
  fresh one: the test of \<^verbatim>\<open>WaitForTask\<close> is never true.\<close>

lemma ecs_WaitForTask_not_nil:
  assumes "ecs_WaitForTask e handle s = Some y"
  shows "fst y \<noteq> Ret None"
  using assms
proof (induction rule: ecs_WaitForTask.raw_induct [rotated 1, consumes 1, case_names step])
  case (step f e handle s y)
  obtain r s1 where d: "DescribeTasks e (ClusterName (ecs_config e)) (Handle_Id handle) s = (r, s1)"
    by (cases "DescribeTasks e (ClusterName (ecs_config e)) (Handle_Id handle) s")
  show ?case
  proof (cases r)
    case (Inl err)
    with step(2) d show ?thesis by auto
  next
    case (Inr tasks)
    show ?thesis
    proof (cases tasks)
      case Nil
      with step(2) d Inr show ?thesis by auto
    next
      case (Cons t ts)
      from DescribeTasks_bound [of e _ _ s tasks s1] d Inr Cons
      have "LastStatus t \<noteq> Some (length (heap s1))" by auto
      with step(2) d Inr Cons have "f e handle (Sleep 1 (s1\<lparr>heap := heap s1 @ [''STOPPED'']\<rparr>)) = Some y"
        by (auto simp: aws_String_def)
      then show ?thesis by (rule step(1))
    qed
  qed
qed

lemma ecs_WaitForTask_diverges:
  assumes "ecs_WaitForTask e handle s = Some y"
    and "\<And>c i b. \<exists>vs b'. svc_DescribeTasks e c i b = (Inr vs, b') \<and> vs \<noteq> []"
  shows False
  using assms
proof (induction rule: ecs_WaitForTask.raw_induct [rotated 1, consumes 1, case_names step])
  case (step f e handle s y)
  from step(3) obtain vs b' where
    v: "svc_DescribeTasks e (ClusterName (ecs_config e)) (Handle_Id handle) (aws s) = (Inr vs, b')"
       "vs \<noteq> []" by blast
  obtain ts s1 where u: "unmarshal_tasks vs (s\<lparr>aws := b'\<rparr>) = (ts, s1)"
    by (cases "unmarshal_tasks vs (s\<lparr>aws := b'\<rparr>)")
  with v have d: "DescribeTasks e (ClusterName (ecs_config e)) (Handle_Id handle) s = (Inr ts, s1)"
    by (simp add: DescribeTasks_def)
  from unmarshal_tasks_bound [OF u] v obtain t ts' where c: "ts = t # ts'"
    by (cases ts) auto
  from DescribeTasks_bound [OF d] c
  have "LastStatus t \<noteq> Some (length (heap s1))" by auto
  with step(2) d c have "f e handle (Sleep 1 (s1\<lparr>heap := heap s1 @ [''STOPPED'']\<rparr>)) = Some y"
    by (auto simp: aws_String_def)
  then show ?case using step(3) by (rule step(1))
qed

lemma ecs_WaitForTask_stopped: "ecs_WaitForTask exStoppedEcs h exEcsState = None"
proof (cases "ecs_WaitForTask exStoppedEcs h exEcsState")
  case None
  then show ?thesis .
next
  case (Some y)
  then have False
    by (rule ecs_WaitForTask_diverges) (simp add: exStoppedEcs_def)
  then show ?thesis ..
qed

text \<open>The loop of \<^verbatim>\<open>CreateTask\<close>, which dereferences the pointer, does end at the poll that
  reports the status it waits for.\<close>

lemma unmarshal_tasks_heap:
  "unmarshal_tasks vs s = (ts, s') \<Longrightarrow> \<exists>xs. heap s' = heap s @ xs"
proof (induction vs s arbitrary: ts s' rule: unmarshal_tasks.induct)
  case (1 s)
  then show ?case by simp
next
  case (2 vs s)
  then show ?case by (auto split: prod.splits)
next
  case (3 v vs s)
  then show ?case by (fastforce simp: aws_String_def split: prod.splits)
qed

lemma ecs_CreateTask_poll_running:
  assumes "svc_DescribeTasks e (ClusterName (ecs_config e)) (Handle_Id handle) (aws s) =
             (Inr (Some ''RUNNING'' # vs), b)"
  shows "\<exists>s'. ecs_CreateTask_poll e handle s = Some (Ret (Inr handle), s')"
proof -
  obtain ts s1 where u: "unmarshal_tasks vs (s\<lparr>aws := b, heap := heap s @ [''RUNNING'']\<rparr>) = (ts, s1)"
    by (cases "unmarshal_tasks vs (s\<lparr>aws := b, heap := heap s @ [''RUNNING'']\<rparr>)")
  from unmarshal_tasks_heap [OF u] obtain xs where "heap s1 = heap s @ ''RUNNING'' # xs"
    by auto
  then have "deref (Some (length (heap s))) s1 = Some ''RUNNING''"
    by (simp add: deref_def)
  with assms u show ?thesis
    by (subst ecs_CreateTask_poll.simps) (simp add: DescribeTasks_def aws_String_def)
qed

text \<open>
  Claim C3 asks that \<^verbatim>\<open>WaitForTask\<close> of the ECS provider return nil as soon as a poll
  reports the last status \<open>STOPPED\<close>. The code does not: no call of it returns nil,
  whatever the backend answers, and with a backend that reports \<open>STOPPED\<close> at every poll
  the call never returns (it sleeps one second after each poll and polls again).
\<close>

theorem ecs_WaitForTask_never_returns_nil:
  "ecs_WaitForTask e handle s \<noteq> Some (Ret None, s')
 \<and> ecs_WaitForTask exStoppedEcs \<lparr>Handle_Name = ''spark-pi'', Handle_Id = ''arn:aws:ecs:task/1''\<rparr>
       exEcsState = None"
  using ecs_WaitForTask_not_nil [of e handle s "(Ret None, s')"]
  by (auto simp: ecs_WaitForTask_stopped)

end
